theory Spec2Isabelle
  imports Main
begin

section \<open>The outside world of the scripts\<close>

text \<open>
  The three scripts (\<^verbatim>\<open>scripts/test_system.py\<close>, \<^verbatim>\<open>scripts/debug_workflow.py\<close> and
  \<^verbatim>\<open>examples/test_device_capabilities.py\<close>) own no data; everything they do is a call
  into the operating system or into the OpenRazer client library, followed by a
  \<^verbatim>\<open>print\<close>.  The model therefore makes every such call explicit: a script is a function
  from the log of what has happened so far to a result and the list of events it adds,
  and the answer of every outside call is given by an oracle that may depend on the
  whole log (so a command or an attribute may answer differently the second time).

  Text is a list of bytes (UTF-8), Python integers are \<open>int\<close>.
\<close>

subsection \<open>Exceptions\<close>

datatype cls =
    KeyboardInterrupt      \<comment> \<open>a \<^verbatim>\<open>BaseException\<close> that is not an \<^verbatim>\<open>Exception\<close>\<close>
  | TimeoutExpired         \<comment> \<open>\<^verbatim>\<open>subprocess.TimeoutExpired\<close>\<close>
  | ImportError            \<comment> \<open>with its subclass \<^verbatim>\<open>ModuleNotFoundError\<close>\<close>
  | ValueError
  | AttributeError
  | IndexError
  | OtherException         \<comment> \<open>any other subclass of \<^verbatim>\<open>Exception\<close>\<close>

datatype exn = Exn cls string   \<comment> \<open>class and \<^verbatim>\<open>str(e)\<close>\<close>

fun cls_of :: "exn \<Rightarrow> cls" where
  "cls_of (Exn c m) = c"

fun exn_str :: "exn \<Rightarrow> string" where
  "exn_str (Exn c m) = m"

text \<open>\<^verbatim>\<open>except Exception\<close> catches every class but \<^verbatim>\<open>KeyboardInterrupt\<close>.\<close>

definition is_Exception :: "exn \<Rightarrow> bool" where
  "is_Exception e = (cls_of e \<noteq> KeyboardInterrupt)"

subsection \<open>Values, processes, events\<close>

datatype pyval = PInt int | PStr string | PObj nat

text \<open>
  What a shell command does when it is started: it exits within a number of seconds
  with a return code, standard output and standard error; or it never exits; or
  starting it raises.
\<close>

datatype proc =
    Exited nat int string string
  | Stuck
  | Failed exn

datatype event =
    Print string                               \<comment> \<open>one call of \<^verbatim>\<open>print\<close>\<close>
  | Run string "nat option" proc               \<comment> \<open>\<^verbatim>\<open>subprocess.run(command, shell=True, timeout=...)\<close>\<close>
  | Sleep nat                                  \<comment> \<open>\<^verbatim>\<open>time.sleep\<close>, in milliseconds\<close>
  | FindSpec string "exn + bool"               \<comment> \<open>\<^verbatim>\<open>importlib.util.find_spec\<close>; True: a spec was found\<close>
  | Import string "exn option"                 \<comment> \<open>\<^verbatim>\<open>from module import ...\<close>\<close>
  | NewManager "exn + pyval"                   \<comment> \<open>\<^verbatim>\<open>DeviceManager()\<close>\<close>
  | Devices pyval "exn + pyval list"           \<comment> \<open>reading \<^verbatim>\<open>device_manager.devices\<close>\<close>
  | Probe pyval string "exn + pyval"           \<comment> \<open>\<^verbatim>\<open>hasattr(obj, name)\<close>\<close>
  | Get pyval string "exn + pyval"             \<comment> \<open>reading \<^verbatim>\<open>obj.name\<close>\<close>
  | Set pyval string pyval "exn option"        \<comment> \<open>\<^verbatim>\<open>obj.name = value\<close>\<close>
  | Call pyval string "int list" "exn option"  \<comment> \<open>\<^verbatim>\<open>obj.name(args)\<close>\<close>
  | PrintAttrs pyval "exn option"              \<comment> \<open>\<^verbatim>\<open>openrazer.client.debug.print_attrs\<close>\<close>
  | WriteFile string string "exn option"       \<comment> \<open>\<^verbatim>\<open>open(path, 'w')\<close> and \<^verbatim>\<open>write\<close>\<close>
  | RemoveFile string "exn option"             \<comment> \<open>\<^verbatim>\<open>os.remove\<close>\<close>
  | Checked string bool                        \<comment> \<open>a call of \<^verbatim>\<open>check_step\<close>: step name, truth of its condition\<close>

text \<open>The oracles: each gets the log so far and the arguments of the call.\<close>

record env =
  proc_of :: "event list \<Rightarrow> string \<Rightarrow> proc"
  spec_of :: "event list \<Rightarrow> string \<Rightarrow> exn + bool"
  import_of :: "event list \<Rightarrow> string \<Rightarrow> exn option"
  manager_of :: "event list \<Rightarrow> exn + pyval"
  devices_of :: "event list \<Rightarrow> pyval \<Rightarrow> exn + pyval list"
  attr_of :: "event list \<Rightarrow> pyval \<Rightarrow> string \<Rightarrow> exn + pyval"
  store_of :: "event list \<Rightarrow> pyval \<Rightarrow> string \<Rightarrow> pyval \<Rightarrow> exn option"
  call_of :: "event list \<Rightarrow> pyval \<Rightarrow> string \<Rightarrow> int list \<Rightarrow> exn option"
  dump_of :: "event list \<Rightarrow> pyval \<Rightarrow> exn option"
  write_of :: "event list \<Rightarrow> string \<Rightarrow> string \<Rightarrow> exn option"
  remove_of :: "event list \<Rightarrow> string \<Rightarrow> exn option"

subsection \<open>Programs\<close>

text \<open>
  A statement returns a value, raises, or never returns (a command without a timeout
  that never exits).
\<close>

datatype 'a res = Ret 'a | Exc exn | Hang

type_synonym 'a prog = "event list \<Rightarrow> 'a res \<times> event list"

definition ret :: "'a \<Rightarrow> 'a prog" where
  "ret x = (\<lambda>h. (Ret x, []))"

definition raise :: "exn \<Rightarrow> 'a prog" where
  "raise e = (\<lambda>h. (Exc e, []))"

definition bind :: "'a prog \<Rightarrow> ('a \<Rightarrow> 'b prog) \<Rightarrow> 'b prog" where
  "bind m f = (\<lambda>h. case m h of
       (Ret x, es) \<Rightarrow> (case f x (h @ es) of (r, es') \<Rightarrow> (r, es @ es'))
     | (Exc e, es) \<Rightarrow> (Exc e, es)
     | (Hang, es) \<Rightarrow> (Hang, es))"

definition seq :: "unit prog \<Rightarrow> 'b prog \<Rightarrow> 'b prog" where
  "seq m n = bind m (\<lambda>_. n)"

text \<open>\<^verbatim>\<open>try: m except <classes in catches> as e: handler e\<close>\<close>

definition try_catch :: "(exn \<Rightarrow> bool) \<Rightarrow> 'a prog \<Rightarrow> (exn \<Rightarrow> 'a prog) \<Rightarrow> 'a prog" where
  "try_catch catches m handler = (\<lambda>h. case m h of
       (Exc e, es) \<Rightarrow>
         (if catches e then (case handler e (h @ es) of (r, es') \<Rightarrow> (r, es @ es'))
          else (Exc e, es))
     | (r, es) \<Rightarrow> (r, es))"

definition try_except :: "'a prog \<Rightarrow> (exn \<Rightarrow> 'a prog) \<Rightarrow> 'a prog" where
  "try_except m handler = try_catch is_Exception m handler"

text \<open>A bare \<^verbatim>\<open>except:\<close> catches \<^verbatim>\<open>KeyboardInterrupt\<close> too.\<close>

definition try_bare :: "'a prog \<Rightarrow> 'a prog \<Rightarrow> 'a prog" where
  "try_bare m handler = try_catch (\<lambda>e. True) m (\<lambda>e. handler)"

fun for_each :: "'a list \<Rightarrow> ('a \<Rightarrow> unit prog) \<Rightarrow> unit prog" where
  "for_each [] body = ret ()"
| "for_each (x # xs) body = seq (body x) (for_each xs body)"

text \<open>
  \<^verbatim>\<open>print\<close> adds a line to standard output.  Writing is taken to succeed: a standard
  output that is closed or full, on which \<^verbatim>\<open>print\<close> itself raises, is outside the model,
  and every statement below is about runs in which the output of the script is accepted.
\<close>

definition print :: "string \<Rightarrow> unit prog" where
  "print s = (\<lambda>h. (Ret (), [Print s]))"

definition sleep_ms :: "nat \<Rightarrow> unit prog" where
  "sleep_ms d = (\<lambda>h. (Ret (), [Sleep d]))"

subsection \<open>The outside calls\<close>

text \<open>
  \<^verbatim>\<open>subprocess.run\<close> with a timeout in seconds raises \<^verbatim>\<open>TimeoutExpired\<close> when the command
  has not exited in time; without one it waits for the command for ever.
\<close>

fun run_result :: "nat option \<Rightarrow> proc \<Rightarrow> (int \<times> string \<times> string) res" where
  "run_result t (Failed e) = Exc e"
| "run_result None (Exited d rc out err) = Ret (rc, out, err)"
| "run_result None Stuck = Hang"
| "run_result (Some t) (Exited d rc out err) =
     (if d \<le> t then Ret (rc, out, err) else Exc (Exn TimeoutExpired ''timed out''))"
| "run_result (Some t) Stuck = Exc (Exn TimeoutExpired ''timed out'')"

definition subprocess_run :: "env \<Rightarrow> string \<Rightarrow> nat option \<Rightarrow> (int \<times> string \<times> string) prog" where
  "subprocess_run env command timeout =
     (\<lambda>h. let p = proc_of env h command in (run_result timeout p, [Run command timeout p]))"

fun of_sum :: "exn + 'a \<Rightarrow> 'a res" where
  "of_sum (Inl e) = Exc e"
| "of_sum (Inr v) = Ret v"

fun of_opt :: "exn option \<Rightarrow> unit res" where
  "of_opt (Some e) = Exc e"
| "of_opt None = Ret ()"

definition find_spec :: "env \<Rightarrow> string \<Rightarrow> bool prog" where
  "find_spec env name = (\<lambda>h. let a = spec_of env h name in (of_sum a, [FindSpec name a]))"

definition import_from :: "env \<Rightarrow> string \<Rightarrow> unit prog" where
  "import_from env name = (\<lambda>h. let a = import_of env h name in (of_opt a, [Import name a]))"

definition DeviceManager :: "env \<Rightarrow> pyval prog" where
  "DeviceManager env = (\<lambda>h. let a = manager_of env h in (of_sum a, [NewManager a]))"

definition devices :: "env \<Rightarrow> pyval \<Rightarrow> pyval list prog" where
  "devices env dm = (\<lambda>h. let a = devices_of env h dm in (of_sum a, [Devices dm a]))"

definition getattr :: "env \<Rightarrow> pyval \<Rightarrow> string \<Rightarrow> pyval prog" where
  "getattr env obj name = (\<lambda>h. let a = attr_of env h obj name in (of_sum a, [Get obj name a]))"

text \<open>
  \<^verbatim>\<open>hasattr\<close> reads the attribute and answers False on \<^verbatim>\<open>AttributeError\<close> only; any
  other exception of the read comes out of \<^verbatim>\<open>hasattr\<close>.
\<close>

fun has_result :: "exn + pyval \<Rightarrow> bool res" where
  "has_result (Inr v) = Ret True"
| "has_result (Inl e) = (if cls_of e = AttributeError then Ret False else Exc e)"

definition hasattr :: "env \<Rightarrow> pyval \<Rightarrow> string \<Rightarrow> bool prog" where
  "hasattr env obj name =
     (\<lambda>h. let a = attr_of env h obj name in (has_result a, [Probe obj name a]))"

definition setattr :: "env \<Rightarrow> pyval \<Rightarrow> string \<Rightarrow> pyval \<Rightarrow> unit prog" where
  "setattr env obj name v =
     (\<lambda>h. let a = store_of env h obj name v in (of_opt a, [Set obj name v a]))"

definition call :: "env \<Rightarrow> pyval \<Rightarrow> string \<Rightarrow> int list \<Rightarrow> unit prog" where
  "call env obj name args =
     (\<lambda>h. let a = call_of env h obj name args in (of_opt a, [Call obj name args a]))"

definition print_attrs :: "env \<Rightarrow> pyval \<Rightarrow> unit prog" where
  "print_attrs env obj = (\<lambda>h. let a = dump_of env h obj in (of_opt a, [PrintAttrs obj a]))"

definition write_file :: "env \<Rightarrow> string \<Rightarrow> string \<Rightarrow> unit prog" where
  "write_file env path content =
     (\<lambda>h. let a = write_of env h path content in (of_opt a, [WriteFile path content a]))"

definition os_remove :: "env \<Rightarrow> string \<Rightarrow> unit prog" where
  "os_remove env path = (\<lambda>h. let a = remove_of env h path in (of_opt a, [RemoveFile path a]))"

subsection \<open>Strings\<close>

text \<open>
  \<^verbatim>\<open>str.isspace\<close>, on text held as UTF-8 bytes.  The white space of one byte: tab, line
  feed, vertical tab, form feed, carriage return, the four separators 0x1C to 0x1F, and
  the space.
\<close>

definition isspace :: "char \<Rightarrow> bool" where
  "isspace c = (of_char c \<in> {9, 10, 11, 12, 13, 28, 29, 30, 31, 32 :: nat})"

text \<open>
  The other characters for which \<^verbatim>\<open>str.isspace\<close> holds take two or three bytes: U+0085,
  U+00A0, U+1680, U+2000 to U+200A, U+2028, U+2029, U+202F, U+205F and U+3000.
\<close>

definition wide_spaces :: "string list" where
  "wide_spaces =
     [[CHR 0xC2, CHR 0x85], [CHR 0xC2, CHR 0xA0], [CHR 0xE1, CHR 0x9A, CHR 0x80],
      [CHR 0xE2, CHR 0x80, CHR 0x80], [CHR 0xE2, CHR 0x80, CHR 0x81],
      [CHR 0xE2, CHR 0x80, CHR 0x82], [CHR 0xE2, CHR 0x80, CHR 0x83],
      [CHR 0xE2, CHR 0x80, CHR 0x84], [CHR 0xE2, CHR 0x80, CHR 0x85],
      [CHR 0xE2, CHR 0x80, CHR 0x86], [CHR 0xE2, CHR 0x80, CHR 0x87],
      [CHR 0xE2, CHR 0x80, CHR 0x88], [CHR 0xE2, CHR 0x80, CHR 0x89],
      [CHR 0xE2, CHR 0x80, CHR 0x8A], [CHR 0xE2, CHR 0x80, CHR 0xA8],
      [CHR 0xE2, CHR 0x80, CHR 0xA9], [CHR 0xE2, CHR 0x80, CHR 0xAF],
      [CHR 0xE2, CHR 0x81, CHR 0x9F], [CHR 0xE3, CHR 0x80, CHR 0x80]]"

text \<open>
  The number of bytes of the white-space character at the head, and at the end, of a
  text; 0 when there is none.  No white-space character begins with a continuation
  byte, so the bytes of well-formed UTF-8 can be scanned one at a time.
\<close>

definition space_len :: "string \<Rightarrow> nat" where
  "space_len s =
     (case s of
        [] \<Rightarrow> 0
      | c # cs \<Rightarrow>
          if isspace c then 1
          else if take 2 s \<in> set wide_spaces then 2
          else if take 3 s \<in> set wide_spaces then 3
          else 0)"

definition space_len_end :: "string \<Rightarrow> nat" where
  "space_len_end s =
     (if s = [] then 0
      else if isspace (last s) then 1
      else if 2 \<le> length s \<and> drop (length s - 2) s \<in> set wide_spaces then 2
      else if 3 \<le> length s \<and> drop (length s - 3) s \<in> set wide_spaces then 3
      else 0)"

text \<open>\<^verbatim>\<open>s.strip()\<close>: the white space at both ends is removed.\<close>

function lstrip :: "string \<Rightarrow> string" where
  "lstrip s = (if space_len s = 0 then s else lstrip (drop (space_len s) s))"
  by pat_completeness auto
termination
proof (relation "measure length")
  show "wf (measure length)" by simp
next
  fix s :: string
  assume "space_len s \<noteq> 0"
  moreover from this have "s \<noteq> []"
    by (auto simp: space_len_def)
  ultimately show "(drop (space_len s) s, s) \<in> measure length"
    by simp
qed

declare lstrip.simps [simp del]

function rstrip :: "string \<Rightarrow> string" where
  "rstrip s = (if space_len_end s = 0 then s else rstrip (take (length s - space_len_end s) s))"
  by pat_completeness auto
termination
proof (relation "measure length")
  show "wf (measure length)" by simp
next
  fix s :: string
  assume "space_len_end s \<noteq> 0"
  moreover from this have "s \<noteq> []"
    by (auto simp: space_len_end_def)
  ultimately show "(take (length s - space_len_end s) s, s) \<in> measure length"
    by simp
qed

declare rstrip.simps [simp del]

definition strip :: "string \<Rightarrow> string" where
  "strip s = rstrip (lstrip s)"

text \<open>\<^verbatim>\<open>s.split(sep)\<close> for a one-character separator: never the empty list.\<close>

fun split_on :: "char \<Rightarrow> string \<Rightarrow> string list" where
  "split_on sep [] = [[]]"
| "split_on sep (c # cs) =
     (if c = sep then [] # split_on sep cs
      else (case split_on sep cs of
              [] \<Rightarrow> [[c]]
            | w # ws \<Rightarrow> (c # w) # ws))"

text \<open>\<^verbatim>\<open>s.split()\<close>: the maximal runs of characters that are not white space.\<close>

fun until_space :: "string \<Rightarrow> string" where
  "until_space [] = []"
| "until_space (c # cs) = (if 0 < space_len (c # cs) then [] else c # until_space cs)"

function split_ws :: "string \<Rightarrow> string list" where
  "split_ws s =
     (let t = lstrip s
      in if t = [] then []
         else until_space t # split_ws (drop (length (until_space t)) t))"
  by pat_completeness auto
termination
proof (relation "measure length")
  show "wf (measure length)" by simp
next
  fix s t :: string
  assume t: "t = lstrip s" and ne: "t \<noteq> []"
  have stripped: "space_len (lstrip u) = 0" for u
    by (induction u rule: lstrip.induct) (subst lstrip.simps, simp)
  have shorter: "length (lstrip u) \<le> length u" for u
  proof (induction u rule: lstrip.induct)
    case (1 u)
    show ?case
    proof (cases "space_len u = 0")
      case True
      then show ?thesis by (subst lstrip.simps) simp
    next
      case False
      then have "length (lstrip (drop (space_len u) u)) \<le> length (drop (space_len u) u)"
        using 1 by simp
      then show ?thesis using False by (subst lstrip.simps) simp
    qed
  qed
  from ne obtain c cs where tc: "t = c # cs" by (cases t) auto
  have "space_len t = 0"
    using t stripped by simp
  then have "until_space t \<noteq> []"
    using tc by simp
  then have "length (drop (length (until_space t)) t) < length t"
    using ne by simp
  moreover have "length t \<le> length s"
    using t shorter by simp
  ultimately show "(drop (length (until_space t)) t, s) \<in> measure length"
    by simp
qed

declare split_ws.simps [simp del]

text \<open>\<^verbatim>\<open>xs[0]\<close>\<close>

definition index0 :: "'a list \<Rightarrow> 'a prog" where
  "index0 xs = (case xs of [] \<Rightarrow> raise (Exn IndexError ''list index out of range'') | x # _ \<Rightarrow> ret x)"

text \<open>\<^verbatim>\<open>needle in s\<close> for strings\<close>

fun contains :: "string \<Rightarrow> string \<Rightarrow> bool" where
  "contains needle [] = (needle = [])"
| "contains needle (c # cs) = (take (length needle) (c # cs) = needle \<or> contains needle cs)"

text \<open>\<^verbatim>\<open>str(n)\<close> for integers\<close>

fun digit :: "nat \<Rightarrow> char" where
  "digit n = char_of (48 + n mod 10)"

function dec :: "nat \<Rightarrow> string" where
  "dec n = (if n < 10 then [digit n] else dec (n div 10) @ [digit n])"
  by pat_completeness auto
termination
  by (relation "measure id") auto

declare dec.simps [simp del]

definition str_int :: "int \<Rightarrow> string" where
  "str_int i = (if i < 0 then CHR ''-'' # dec (nat (- i)) else dec (nat i))"

fun py_str :: "pyval \<Rightarrow> string" where
  "py_str (PInt i) = str_int i"
| "py_str (PStr s) = s"
| "py_str (PObj n) = ''<object '' @ dec n @ ''>''"

definition tick :: string where
  "tick = [CHR 0xE2, CHR 0x9C, CHR 0x93]"

definition cross :: string where
  "cross = [CHR 0xE2, CHR 0x9C, CHR 0x97]"

text \<open>The three emoji of the summaries: U+1F389, U+26A0 U+FE0F, U+274C.\<close>

definition party :: string where
  "party = [CHR 0xF0, CHR 0x9F, CHR 0x8E, CHR 0x89]"

definition warning_sign :: string where
  "warning_sign = [CHR 0xE2, CHR 0x9A, CHR 0xA0, CHR 0xEF, CHR 0xB8, CHR 0x8F]"

definition cross_mark :: string where
  "cross_mark = [CHR 0xE2, CHR 0x9D, CHR 0x8C]"

section \<open>The two \<^verbatim>\<open>run_command\<close> helpers\<close>

text \<open>\<^verbatim>\<open>scripts/test_system.py\<close>, lines 21 to 27: no timeout is passed.\<close>

definition ts_run_command :: "env \<Rightarrow> string \<Rightarrow> (bool \<times> string \<times> string) prog" where
  "ts_run_command env command =
     try_except
       (bind (subprocess_run env command None) (\<lambda>(returncode, out, err).
          ret (returncode = 0, out, err)))
       (\<lambda>e. ret (False, [], exn_str e))"

text \<open>\<^verbatim>\<open>scripts/debug_workflow.py\<close>, lines 16 to 36: \<^verbatim>\<open>timeout=10\<close>.\<close>

definition dw_run_command :: "env \<Rightarrow> string \<Rightarrow> string \<Rightarrow> (bool \<times> string \<times> string) prog" where
  "dw_run_command env command description =
     seq (print (''\<newline>'' @ description @ ''...''))
    (seq (print (''$ '' @ command))
    (try_except
       (bind (subprocess_run env command (Some 10)) (\<lambda>(returncode, out, err).
          seq (if out \<noteq> [] then seq (print ''STDOUT:'') (print out) else ret ())
         (seq (if err \<noteq> [] then seq (print ''STDERR:'') (print err) else ret ())
         (seq (print (''Exit code: '' @ str_int returncode))
              (ret (returncode = 0, out, err))))))
       (\<lambda>e. if cls_of e = TimeoutExpired
            then seq (print ''Command timed out!'') (ret (False, [], ''Timeout''))
            else seq (print (''Error running command: '' @ exn_str e))
                     (ret (False, [], exn_str e)))))"


section \<open>\<^verbatim>\<open>scripts/test_system.py\<close>\<close>

text \<open>Lines 13 to 19.\<close>

definition ts_check_import :: "env \<Rightarrow> string \<Rightarrow> bool prog" where
  "ts_check_import env module_name =
     try_catch (\<lambda>e. cls_of e = ImportError \<or> cls_of e = ValueError)
       (bind (find_spec env module_name) (\<lambda>found. ret found))
       (\<lambda>e. ret False)"

text \<open>
  \<^verbatim>\<open>main\<close> is one straight run of six numbered tests and a summary.  Each test is a
  function of the two counters \<open>(tests_passed, total_tests)\<close> here, in the order of the
  source.  Test 1, lines 36 to 48:
\<close>

definition ts_test1 :: "env \<Rightarrow> int \<times> int \<Rightarrow> (int \<times> int) prog" where
  "ts_test1 env = (\<lambda>(tests_passed, total_tests).
     seq (print ''\<newline>1. Checking for Razer devices...'')
    (bind (ret (total_tests + 1)) (\<lambda>total_tests.
     bind (ts_run_command env ''lsusb | grep 1532'') (\<lambda>(success, stdout, stderr).
       if success \<and> strip stdout \<noteq> [] then
         seq (print (tick @ '' Found Razer device(s):''))
        (seq (for_each (split_on CHR ''\<newline>'' (strip stdout)) (\<lambda>line. print (''  '' @ line)))
             (ret (tests_passed + 1, total_tests)))
       else
         seq (print (cross @ '' No Razer devices found''))
        (seq (print (''  This is OK if you'' @ [CHR 0x27] @ ''re testing with fake devices''))
             (ret (tests_passed, total_tests)))))))"

text \<open>Test 2, lines 50 to 62; \<^verbatim>\<open>line.split()[0]\<close> is outside every \<^verbatim>\<open>try\<close>.\<close>

definition ts_test2 :: "env \<Rightarrow> int \<times> int \<Rightarrow> (int \<times> int) prog" where
  "ts_test2 env = (\<lambda>(tests_passed, total_tests).
     seq (print ''\<newline>2. Checking kernel modules...'')
    (bind (ret (total_tests + 1)) (\<lambda>total_tests.
     bind (ts_run_command env ''lsmod | grep razer'') (\<lambda>(success, stdout, stderr).
       if success \<and> strip stdout \<noteq> [] then
         seq (print (tick @ '' OpenRazer kernel modules loaded:''))
        (seq (for_each (split_on CHR ''\<newline>'' (strip stdout)) (\<lambda>line.
                bind (index0 (split_ws line)) (\<lambda>module_name. print (''  '' @ module_name))))
             (ret (tests_passed + 1, total_tests)))
       else
         seq (print (cross @ '' No OpenRazer kernel modules loaded''))
             (ret (tests_passed, total_tests))))))"

text \<open>
  Test 3, lines 64 to 83.  Lines 69 to 75 put the repository's \<^verbatim>\<open>pylib\<close> directory on
  \<^verbatim>\<open>sys.path\<close>; that prints nothing and only changes what the import oracles answer,
  which is arbitrary already.
\<close>

definition ts_test3 :: "env \<Rightarrow> int \<times> int \<Rightarrow> (int \<times> int) prog" where
  "ts_test3 env = (\<lambda>(tests_passed, total_tests).
     seq (print ''\<newline>3. Checking Python library...'')
    (bind (ret (total_tests + 1)) (\<lambda>total_tests.
     bind (ts_check_import env ''openrazer.client'') (\<lambda>ok.
       if ok then
         seq (print (tick @ '' OpenRazer Python library can be imported''))
             (ret (tests_passed + 1, total_tests))
       else
         seq (print (cross @ '' Cannot import OpenRazer Python library''))
        (seq (print ''  Make sure openrazer is installed: pip3 install openrazer'')
        (seq (print ''  Or run from repository root with PYTHONPATH=pylib'')
             (ret (tests_passed, total_tests))))))))"

text \<open>Test 4, lines 85 to 106.\<close>

definition ts_test4 :: "env \<Rightarrow> int \<times> int \<Rightarrow> (int \<times> int) prog" where
  "ts_test4 env = (\<lambda>(tests_passed, total_tests).
     seq (print ''\<newline>4. Testing device detection...'')
    (bind (ret (total_tests + 1)) (\<lambda>total_tests.
     try_except
       (seq (import_from env ''openrazer.client'')
       (bind (DeviceManager env) (\<lambda>device_manager.
        bind (devices env device_manager) (\<lambda>ds.
        bind (ret (int (length ds))) (\<lambda>device_count.
          if device_count > 0 then
            seq (print (tick @ '' Found '' @ str_int device_count @ '' device(s):''))
           (bind (devices env device_manager) (\<lambda>ds.
            seq (for_each ds (\<lambda>device.
                   bind (getattr env device ''name'') (\<lambda>name.
                   bind (getattr env device ''serial'') (\<lambda>serial.
                     print (''  - '' @ py_str name @ '' (Serial: '' @ py_str serial @ '')'')))))
                (ret (tests_passed + 1, total_tests))))
          else
            seq (print (cross @ '' No devices detected by OpenRazer''))
           (seq (print ''  This could be due to:'')
           (seq (print ''  - No physical devices connected'')
           (seq (print ''  - Permission issues'')
           (seq (print ''  - Driver not loaded'')
                (ret (tests_passed, total_tests)))))))))))
       (\<lambda>e. seq (print (cross @ '' Error testing device detection: '' @ exn_str e))
                (ret (tests_passed, total_tests))))))"

text \<open>Test 5, lines 108 to 118.\<close>

definition ts_test5 :: "env \<Rightarrow> int \<times> int \<Rightarrow> (int \<times> int) prog" where
  "ts_test5 env = (\<lambda>(tests_passed, total_tests).
     seq (print ''\<newline>5. Checking daemon status...'')
    (bind (ret (total_tests + 1)) (\<lambda>total_tests.
     bind (ts_run_command env ''systemctl is-active openrazer-daemon'') (\<lambda>(success, stdout, stderr).
       if success \<and> contains ''active'' stdout then
         seq (print (tick @ '' OpenRazer daemon is running''))
             (ret (tests_passed + 1, total_tests))
       else
         seq (print (cross @ '' OpenRazer daemon is not running''))
        (seq (print ''  Try: systemctl start openrazer-daemon'')
             (ret (tests_passed, total_tests)))))))"

text \<open>The expression \<^verbatim>\<open>device.fx.lighting_led_matrix\<close>.\<close>

definition ts_matrix :: "env \<Rightarrow> pyval \<Rightarrow> pyval prog" where
  "ts_matrix env device =
     bind (getattr env device ''fx'') (\<lambda>fx. getattr env fx ''lighting_led_matrix'')"

text \<open>The brightness test inside test 6, lines 139 to 156.\<close>

definition ts_brightness_test :: "env \<Rightarrow> pyval \<Rightarrow> unit prog" where
  "ts_brightness_test env device =
     try_except
       (bind (ts_matrix env device) (\<lambda>m.
        bind (getattr env m ''brightness'') (\<lambda>original_brightness.
        bind (ts_matrix env device) (\<lambda>m.
        seq (setattr env m ''brightness'' (PInt 128))
       (bind (ts_matrix env device) (\<lambda>m.
        bind (getattr env m ''brightness'') (\<lambda>current_brightness.
        seq (if current_brightness = PInt 128
             then print (''  - Brightness control: '' @ tick)
             else print (''  - Brightness control: '' @ cross))
       (bind (ts_matrix env device) (\<lambda>m.
          setattr env m ''brightness'' original_brightness)))))))))
       (\<lambda>e. print (''  - Lighting test failed: '' @ exn_str e))"

text \<open>Test 6, lines 120 to 164.\<close>

definition ts_test6 :: "env \<Rightarrow> int \<times> int \<Rightarrow> (int \<times> int) prog" where
  "ts_test6 env = (\<lambda>(tests_passed, total_tests).
     seq (print ''\<newline>6. Testing basic device functionality...'')
    (bind (ret (total_tests + 1)) (\<lambda>total_tests.
     try_except
       (seq (import_from env ''openrazer.client'')
       (bind (DeviceManager env) (\<lambda>device_manager.
        bind (devices env device_manager) (\<lambda>ds.
          if int (length ds) > 0 then
            bind (devices env device_manager) (\<lambda>ds.
            bind (index0 ds) (\<lambda>device.
            bind (getattr env device ''name'') (\<lambda>name.
            seq (print (''  Testing with: '' @ py_str name))
           (bind (getattr env device ''type'') (\<lambda>type.
            seq (print (''  - Type: '' @ py_str type))
           (bind (getattr env device ''firmware_version'') (\<lambda>firmware_version.
            seq (print (''  - Firmware: '' @ py_str firmware_version))
           (bind (getattr env device ''driver_version'') (\<lambda>driver_version.
            seq (print (''  - Driver: '' @ py_str driver_version))
           (bind (hasattr env device ''fx'') (\<lambda>has_fx.
            bind (if has_fx
                  then bind (getattr env device ''fx'') (\<lambda>fx. hasattr env fx ''lighting_led_matrix'')
                  else ret False) (\<lambda>has_matrix.
            seq (if has_matrix then ts_brightness_test env device else ret ())
                (ret (tests_passed + 1, total_tests))))))))))))))
          else
            seq (print ''  Skipped - no devices available'')
                (ret (tests_passed + 1, total_tests))))))
       (\<lambda>e. seq (print (cross @ '' Error testing device functionality: '' @ exn_str e))
                (ret (tests_passed, total_tests))))))"

text \<open>Lines 30 to 165: the banner and the six tests.\<close>

definition ts_checks :: "env \<Rightarrow> (int \<times> int) prog" where
  "ts_checks env =
     seq (print ''OpenRazer Basic System Test'')
    (seq (print ''==========================='')
    (bind (ts_test1 env (0, 0)) (\<lambda>counters.
     bind (ts_test2 env counters) (\<lambda>counters.
     bind (ts_test3 env counters) (\<lambda>counters.
     bind (ts_test4 env counters) (\<lambda>counters.
     bind (ts_test5 env counters) (\<lambda>counters.
          ts_test6 env counters)))))))"

text \<open>The summary, lines 166 to 180: the value returned by \<^verbatim>\<open>main\<close>.\<close>

definition ts_summary :: "int \<times> int \<Rightarrow> int prog" where
  "ts_summary = (\<lambda>(tests_passed, total_tests).
     seq (print (''\<newline>'' @ replicate 40 (CHR ''='')))
    (seq (print (''Test Results: '' @ str_int tests_passed @ ''/'' @ str_int total_tests @ '' passed''))
    (if tests_passed = total_tests then
       seq (print (party @ '' All tests passed! OpenRazer appears to be working correctly.''))
           (ret 0)
     else if tests_passed \<ge> total_tests - 1 then
       seq (print (warning_sign @ ''  Most tests passed. Minor issues detected.''))
           (ret 0)
     else
       seq (print (cross_mark @ '' Multiple tests failed. Please check the issues above.''))
      (seq (print ''\<newline>For troubleshooting help, see DEBUGGING_AND_TESTING.md'')
      (seq (print ''or run: ./scripts/troubleshoot.sh'')
           (ret 1))))))"

definition ts_main :: "env \<Rightarrow> int prog" where
  "ts_main env = bind (ts_checks env) ts_summary"


section \<open>\<^verbatim>\<open>scripts/debug_workflow.py\<close>\<close>

text \<open>
  \<^verbatim>\<open>check_step\<close>, lines 39 to 52.  The condition is passed as its truth value.  The log
  also records the call itself, so that the steps of a run can be read off it.
\<close>

definition dw_check_step :: "string \<Rightarrow> bool \<Rightarrow> string \<Rightarrow> string \<Rightarrow> string \<Rightarrow> bool prog" where
  "dw_check_step step_name condition success_msg failure_msg tip =
     seq (\<lambda>h. (Ret (), [Checked step_name condition]))
    (seq (print (''\<newline>'' @ replicate 50 (CHR ''='')))
    (seq (print (''STEP: '' @ step_name))
    (seq (print (replicate 50 (CHR ''='')))
    (if condition then
       seq (print (tick @ '' '' @ success_msg))
           (ret True)
     else
       seq (print (cross @ '' '' @ failure_msg))
      (seq (if tip \<noteq> [] then print (''TIP: '' @ tip) else ret ())
           (ret False))))))"

text \<open>The locals of \<^verbatim>\<open>main\<close> that outlive a step.\<close>

record dw_state =
  issues_found :: "string list"
  has_hardware :: bool
  has_modules :: bool
  python_works :: bool

text \<open>Step 1, lines 64 to 76.\<close>

definition dw_step1 :: "env \<Rightarrow> dw_state \<Rightarrow> dw_state prog" where
  "dw_step1 env s =
     bind (dw_run_command env ''lsusb | grep 1532'' ''Checking for Razer devices'')
       (\<lambda>(success, stdout, stderr).
     bind (dw_check_step ''Hardware Detection'' (success \<and> strip stdout \<noteq> [])
             (''Found Razer device(s):\<newline>'' @ stdout)
             ''No Razer devices detected by USB subsystem''
             ''Try a different USB port or check if device is powered on'') (\<lambda>hw.
       if \<not> hw then
         seq (print ''\<newline>INFO: Continuing with software checks...'')
             (ret (s\<lparr>has_hardware := hw, issues_found := issues_found s @ [''No hardware detected'']\<rparr>))
       else ret (s\<lparr>has_hardware := hw\<rparr>)))"

text \<open>Step 2, lines 78 to 96.\<close>

definition dw_step2 :: "env \<Rightarrow> dw_state \<Rightarrow> dw_state prog" where
  "dw_step2 env s =
     bind (dw_run_command env ''lsmod | grep razer'' ''Checking kernel modules'')
       (\<lambda>(success, stdout, stderr).
     bind (dw_check_step ''Kernel Module Loading'' (success \<and> strip stdout \<noteq> [])
             (''OpenRazer modules loaded:\<newline>'' @ stdout)
             ''No OpenRazer kernel modules loaded''
             ''Try: sudo modprobe razerkbd razermouse razeraccessory'') (\<lambda>mods.
       if \<not> mods then
         bind (dw_run_command env ''dkms status openrazer-driver'' ''Checking DKMS status'')
           (\<lambda>(success, stdout, stderr).
         seq (if success \<and> strip stdout \<noteq> []
              then print (''DKMS status:\<newline>'' @ stdout)
              else print ''DKMS module not found or not installed'')
             (ret (s\<lparr>has_modules := mods, issues_found := issues_found s @ [''Kernel modules not loaded'']\<rparr>)))
       else ret (s\<lparr>has_modules := mods\<rparr>)))"

text \<open>Step 3, lines 98 to 109.\<close>

definition dw_step3 :: "env \<Rightarrow> dw_state \<Rightarrow> dw_state prog" where
  "dw_step3 env s =
     bind (dw_run_command env
             (''find /lib/modules/$(uname -r) -name '' @ [CHR 0x27] @ ''*razer*'' @ [CHR 0x27])
             ''Checking module files'')
       (\<lambda>(success, stdout, stderr).
     bind (dw_check_step ''Module Files'' (success \<and> strip stdout \<noteq> [])
             (''Found module files:\<newline>'' @ stdout)
             ''No OpenRazer module files found''
             ''Try reinstalling OpenRazer or check DKMS installation'') (\<lambda>has_module_files.
       if \<not> has_module_files
       then ret (s\<lparr>issues_found := issues_found s @ [''Module files missing'']\<rparr>)
       else ret s))"

text \<open>Step 4, lines 111 to 123: only when steps 1 and 2 both passed.\<close>

definition dw_step4 :: "env \<Rightarrow> dw_state \<Rightarrow> dw_state prog" where
  "dw_step4 env s =
     (if has_hardware s \<and> has_modules s then
        bind (dw_run_command env
                (''find /sys/bus/hid/drivers/razer* -name '' @ [CHR 0x27] @ ''*1532*'' @ [CHR 0x27]
                   @ '' 2>/dev/null'')
                ''Checking device files'')
          (\<lambda>(success, stdout, stderr).
        bind (dw_check_step ''Device Files'' (success \<and> strip stdout \<noteq> [])
                (''Found device files:\<newline>'' @ stdout)
                ''No device files in sysfs''
                ''Check if modules recognize your specific device model'') (\<lambda>has_device_files.
          if \<not> has_device_files
          then ret (s\<lparr>issues_found := issues_found s @ [''Device files not created'']\<rparr>)
          else ret s))
      else ret s)"

text \<open>Step 5, lines 125 to 141.\<close>

definition dw_step5 :: "env \<Rightarrow> dw_state \<Rightarrow> dw_state prog" where
  "dw_step5 env s =
     bind (dw_run_command env ''systemctl is-active openrazer-daemon'' ''Checking daemon status'')
       (\<lambda>(success, stdout, stderr).
     bind (dw_check_step ''Daemon Status'' (success \<and> contains ''active'' stdout)
             ''OpenRazer daemon is running''
             ''OpenRazer daemon is not running''
             ''Try: systemctl start openrazer-daemon'') (\<lambda>daemon_running.
       if \<not> daemon_running then
         bind (dw_run_command env ''journalctl -u openrazer-daemon --no-pager -n 10''
                 ''Checking daemon logs'')
           (\<lambda>(success, stdout, stderr).
         seq (if success \<and> strip stdout \<noteq> []
              then print (''Recent daemon logs:\<newline>'' @ stdout)
              else ret ())
             (ret (s\<lparr>issues_found := issues_found s @ [''Daemon not running'']\<rparr>)))
       else ret s))"

text \<open>
  Step 6, lines 143 to 163.  Lines 144 to 151 build a copy of the environment with
  \<^verbatim>\<open>PYTHONPATH\<close> set; the copy is never passed to a command.
\<close>

definition dw_step6 :: "env \<Rightarrow> dw_state \<Rightarrow> dw_state prog" where
  "dw_step6 env s =
     bind (dw_run_command env
             (''python3 -c '' @ [CHR 0x27]
                @ ''from openrazer.client import DeviceManager; print(''
                @ [CHR 0x22] @ ''Import successful'' @ [CHR 0x22] @ '')'' @ [CHR 0x27])
             ''Testing Python library import'')
       (\<lambda>(success, stdout, stderr).
     bind (dw_check_step ''Python Library'' success
             ''OpenRazer Python library imported successfully''
             (''Failed to import OpenRazer Python library:\<newline>'' @ stderr)
             ''Try: pip3 install openrazer'') (\<lambda>py.
       if \<not> py
       then ret (s\<lparr>python_works := py, issues_found := issues_found s @ [''Python library import failed'']\<rparr>)
       else ret (s\<lparr>python_works := py\<rparr>)))"

text \<open>The program written to \<^verbatim>\<open>/tmp/test_devices.py\<close>, lines 167 to 184.\<close>

definition test_script :: string where
  "test_script =
     ''\<newline>import os, sys\<newline>''
   @ ''script_dir = os.path.dirname(os.path.abspath(__file__))\<newline>''
   @ ''repo_root = os.path.dirname(script_dir)\<newline>''
   @ ''pylib_path = os.path.join(repo_root, '' @ [CHR 0x27] @ ''pylib'' @ [CHR 0x27] @ '')\<newline>''
   @ ''if os.path.exists(pylib_path):\<newline>''
   @ ''    sys.path.insert(0, pylib_path)\<newline>''
   @ ''\<newline>''
   @ ''try:\<newline>''
   @ ''    from openrazer.client import DeviceManager\<newline>''
   @ ''    dm = DeviceManager()\<newline>''
   @ ''    print(f'' @ [CHR 0x27] @ ''Found {len(dm.devices)} devices'' @ [CHR 0x27] @ '')\<newline>''
   @ ''    for device in dm.devices:\<newline>''
   @ ''        print(f'' @ [CHR 0x27] @ ''  - {device.name}'' @ [CHR 0x27] @ '')\<newline>''
   @ ''except Exception as e:\<newline>''
   @ ''    print(f'' @ [CHR 0x27] @ ''Error: {e}'' @ [CHR 0x27] @ '')\<newline>''
   @ ''    exit(1)\<newline>''"

text \<open>Step 7, lines 165 to 204: only when step 6 passed.\<close>

definition dw_step7 :: "env \<Rightarrow> dw_state \<Rightarrow> dw_state prog" where
  "dw_step7 env s =
     (if python_works s then
        seq (write_file env ''/tmp/test_devices.py'' test_script)
       (bind (dw_run_command env ''python3 /tmp/test_devices.py'' ''Testing device detection'')
          (\<lambda>(success, stdout, stderr).
        bind (dw_check_step ''Device Detection'' (success \<and> contains ''Found'' stdout)
                (''Device detection successful:\<newline>'' @ stdout)
                (''Device detection failed:\<newline>'' @ stderr)
                ''Check hardware connection and permissions'') (\<lambda>devices_detected.
        bind (ret (if \<not> devices_detected
                   then s\<lparr>issues_found := issues_found s @ [''Device detection failed'']\<rparr>
                   else s)) (\<lambda>s.
        seq (try_bare (os_remove env ''/tmp/test_devices.py'') (ret ()))
            (ret s)))))
      else ret s)"

text \<open>Step 8, lines 206 to 217.\<close>

definition dw_step8 :: "env \<Rightarrow> dw_state \<Rightarrow> dw_state prog" where
  "dw_step8 env s =
     bind (dw_run_command env ''groups | grep plugdev'' ''Checking user groups'')
       (\<lambda>(success, stdout, stderr).
     bind (dw_check_step ''User Permissions'' success
             (''User is in '' @ [CHR 0x27] @ ''plugdev'' @ [CHR 0x27] @ '' group'')
             (''User is not in '' @ [CHR 0x27] @ ''plugdev'' @ [CHR 0x27] @ '' group'')
             ''Try: sudo usermod -a -G plugdev $USER (then logout/login)'') (\<lambda>has_plugdev.
       if \<not> has_plugdev
       then ret (s\<lparr>issues_found := issues_found s @ [''User not in plugdev group'']\<rparr>)
       else ret s))"

text \<open>Lines 56 to 217: the banner and the eight steps.\<close>

definition dw_steps :: "env \<Rightarrow> dw_state prog" where
  "dw_steps env =
     seq (print ''OpenRazer Debug Workflow'')
    (seq (print (replicate 60 (CHR ''='')))
    (seq (print ''This script walks through a systematic debugging process'')
    (seq (print ''for OpenRazer. Follow along to identify issues with your setup.'')
    (seq (print (replicate 60 (CHR ''='')))
    (bind (dw_step1 env \<lparr>issues_found = [], has_hardware = False, has_modules = False,
                           python_works = False\<rparr>) (\<lambda>s.
     bind (dw_step2 env s) (\<lambda>s.
     bind (dw_step3 env s) (\<lambda>s.
     bind (dw_step4 env s) (\<lambda>s.
     bind (dw_step5 env s) (\<lambda>s.
     bind (dw_step6 env s) (\<lambda>s.
     bind (dw_step7 env s) (\<lambda>s.
          dw_step8 env s))))))))))))"

text \<open>The summary, lines 219 to 261: the value returned by \<^verbatim>\<open>main\<close>.\<close>

definition dw_summary :: "string list \<Rightarrow> int prog" where
  "dw_summary issues =
     seq (print (''\<newline>'' @ replicate 60 (CHR ''='')))
    (seq (print ''DEBUG SUMMARY'')
    (seq (print (replicate 60 (CHR ''='')))
    (seq (if issues = [] then
            seq (print (party @ '' No issues detected! OpenRazer should be working correctly.''))
           (seq (print (''\<newline>If you'' @ [CHR 0x27] @ ''re still experiencing problems:''))
           (seq (print ''- Try running: python3 scripts/test_system.py'')
           (seq (print ''- Check device-specific issues with scripts in scripts/driver/'')
                (print ''- Look for more help in DEBUGGING_AND_TESTING.md''))))
          else
            seq (print (cross_mark @ '' Found '' @ str_int (int (length issues)) @ '' issue(s):''))
           (seq (for_each (enumerate 1 issues) (\<lambda>(i, issue).
                   print (''  '' @ str_int (int i) @ ''. '' @ issue)))
           (seq (print ''\<newline>NEXT STEPS:'')
           (seq (if ''No hardware detected'' \<in> set issues then
                   seq (print ''1. Verify your Razer device is connected and powered on'')
                  (seq (print ''2. Try a different USB port'')
                       (print ''3. Check if device is supported (see README.md)''))
                 else ret ())
           (seq (if ''Kernel modules not loaded'' \<in> set issues \<or> ''Module files missing'' \<in> set issues then
                   seq (print ''1. Reinstall OpenRazer kernel modules'')
                  (seq (print ''2. Check for secure boot issues'')
                       (print ''3. Verify kernel headers are installed''))
                 else ret ())
           (seq (if ''Daemon not running'' \<in> set issues then
                   seq (print ''1. Start daemon: systemctl start openrazer-daemon'')
                  (seq (print ''2. Enable on boot: systemctl enable openrazer-daemon'')
                       (print ''3. Check daemon logs: journalctl -u openrazer-daemon''))
                 else ret ())
           (seq (if ''Python library import failed'' \<in> set issues then
                   seq (print ''1. Install Python library: pip3 install openrazer'')
                       (print ''2. Check dependencies are installed'')
                 else ret ())
           (seq (if ''User not in plugdev group'' \<in> set issues then
                   seq (print ''1. Add user to group: sudo usermod -a -G plugdev $USER'')
                       (print ''2. Logout and login again'')
                 else ret ())
                (print ''\<newline>For detailed troubleshooting, see DEBUGGING_AND_TESTING.md'')))))))))
         (ret (int (length issues))))))"

definition dw_main :: "env \<Rightarrow> int prog" where
  "dw_main env = bind (dw_steps env) (\<lambda>s. dw_summary (issues_found s))"

text \<open>
  The entry point, lines 264 to 273.  A returned value is the argument of \<^verbatim>\<open>sys.exit\<close>:
  the exit code of the process.
\<close>

definition dw_script :: "env \<Rightarrow> int prog" where
  "dw_script env =
     try_catch (\<lambda>e. cls_of e = KeyboardInterrupt \<or> is_Exception e)
       (bind (dw_main env) (\<lambda>exit_code. ret exit_code))
       (\<lambda>e. if cls_of e = KeyboardInterrupt
            then seq (print ''\<newline>\<newline>Debugging interrupted by user.'') (ret 1)
            else seq (print (''\<newline>Unexpected error: '' @ exn_str e)) (ret 1))"

text \<open>The entry point of \<^verbatim>\<open>test_system.py\<close>, lines 182 and 183.\<close>

definition ts_script :: "env \<Rightarrow> int prog" where
  "ts_script env = bind (ts_main env) (\<lambda>exit_code. ret exit_code)"


section \<open>\<^verbatim>\<open>examples/test_device_capabilities.py\<close>\<close>

text \<open>
  A method call \<^verbatim>\<open>obj.name(args)\<close>, also when written \<^verbatim>\<open>getattr(obj, name)()\<close>, is one
  \<open>Call\<close> event.  \<^verbatim>\<open>test_device_info\<close>, lines 15 to 31:
\<close>

definition dc_test_device_info :: "env \<Rightarrow> pyval \<Rightarrow> unit prog" where
  "dc_test_device_info env device =
     bind (getattr env device ''name'') (\<lambda>name.
     seq (print (''\<newline>=== '' @ py_str name @ '' ===''))
    (bind (getattr env device ''type'') (\<lambda>type.
     seq (print (''Type: '' @ py_str type))
    (bind (getattr env device ''serial'') (\<lambda>serial.
     seq (print (''Serial: '' @ py_str serial))
    (bind (getattr env device ''firmware_version'') (\<lambda>firmware_version.
     seq (print (''Firmware: '' @ py_str firmware_version))
    (bind (getattr env device ''driver_version'') (\<lambda>driver_version.
     seq (print (''Driver: '' @ py_str driver_version))
    (bind (hasattr env device ''device_mode'') (\<lambda>has_mode.
     seq (if has_mode
          then bind (getattr env device ''device_mode'') (\<lambda>device_mode.
                 print (''Device Mode: '' @ py_str device_mode))
          else ret ())
    (bind (hasattr env device ''poll_rate'') (\<lambda>has_poll_rate.
       if has_poll_rate
       then try_bare
              (bind (getattr env device ''poll_rate'') (\<lambda>poll_rate.
                 print (''Poll Rate: '' @ py_str poll_rate)))
              (print ''Poll Rate: Not readable'')
       else ret ())))))))))))))"

text \<open>The brightness test, lines 52 to 67.\<close>

definition dc_brightness_test :: "env \<Rightarrow> pyval \<Rightarrow> unit prog" where
  "dc_brightness_test env matrix =
     try_except
       (bind (getattr env matrix ''brightness'') (\<lambda>original_brightness.
        seq (print (''  Current brightness: '' @ py_str original_brightness))
       (seq (setattr env matrix ''brightness'' (PInt 128))
       (seq (sleep_ms 100)
       (bind (getattr env matrix ''brightness'') (\<lambda>new_brightness.
        seq (print (''  Set brightness to 128, got: '' @ py_str new_brightness))
       (seq (setattr env matrix ''brightness'' original_brightness)
            (print (''  '' @ tick @ '' Brightness control working'')))))))))
       (\<lambda>e. print (''  '' @ cross @ '' Brightness control failed: '' @ exn_str e))"

text \<open>The static colours, lines 69 to 83.\<close>

definition dc_static_test :: "env \<Rightarrow> pyval \<Rightarrow> unit prog" where
  "dc_static_test env matrix =
     try_except
       (seq (call env matrix ''static'' [255, 0, 0])
       (seq (print (''  '' @ tick @ '' Static red color set''))
       (seq (sleep_ms 500)
       (seq (call env matrix ''static'' [0, 255, 0])
       (seq (print (''  '' @ tick @ '' Static green color set''))
       (seq (sleep_ms 500)
       (seq (call env matrix ''static'' [0, 0, 255])
       (seq (print (''  '' @ tick @ '' Static blue color set''))
            (sleep_ms 500)))))))))
       (\<lambda>e. print (''  '' @ cross @ '' Static color failed: '' @ exn_str e))"

text \<open>The other effects, lines 85 to 100.\<close>

definition effects_to_test :: "(string \<times> string) list" where
  "effects_to_test =
     [(''breath_random'', ''Random breathing''),
      (''wave'', ''Wave effect''),
      (''reactive'', ''Reactive effect''),
      (''spectrum'', ''Spectrum cycling'')]"

definition dc_effects_test :: "env \<Rightarrow> pyval \<Rightarrow> unit prog" where
  "dc_effects_test env matrix =
     for_each effects_to_test (\<lambda>(effect_name, description).
       bind (hasattr env matrix effect_name) (\<lambda>has_effect.
         if has_effect then
           try_except
             (seq (call env matrix effect_name [])
             (seq (print (''  '' @ tick @ '' '' @ description @ '' working''))
                  (sleep_ms 1000)))
             (\<lambda>e. print (''  '' @ cross @ '' '' @ description @ '' failed: '' @ exn_str e))
         else ret ()))"

text \<open>\<^verbatim>\<open>test_lighting_capabilities\<close>, lines 34 to 124.\<close>

definition dc_test_lighting_capabilities :: "env \<Rightarrow> pyval \<Rightarrow> bool prog" where
  "dc_test_lighting_capabilities env device =
     bind (getattr env device ''name'') (\<lambda>name.
     seq (print (''\<newline>--- Lighting Capabilities for '' @ py_str name @ '' ---''))
    (bind (hasattr env device ''fx'') (\<lambda>has_fx.
       if \<not> has_fx then
         seq (print ''No lighting effects available'') (ret False)
       else
         bind (getattr env device ''fx'') (\<lambda>fx.
         bind (ret False) (\<lambda>has_lighting.
         bind (hasattr env fx ''lighting_led_matrix'') (\<lambda>has_matrix.
         bind (if has_matrix then
                 seq (print (tick @ '' Matrix lighting available''))
                (bind (getattr env fx ''lighting_led_matrix'') (\<lambda>matrix.
                 seq (dc_brightness_test env matrix)
                (seq (dc_static_test env matrix)
                (seq (dc_effects_test env matrix)
                     (ret True)))))
               else ret has_lighting) (\<lambda>has_lighting.
         bind (hasattr env fx ''lighting_logo'') (\<lambda>has_logo.
         bind (if has_logo then
                 seq (print (tick @ '' Logo lighting available''))
                (seq (try_except
                        (bind (getattr env fx ''lighting_logo'') (\<lambda>logo.
                         seq (call env logo ''static'' [255, 255, 255])
                             (print (''  '' @ tick @ '' Logo static color working''))))
                        (\<lambda>e. print (''  '' @ cross @ '' Logo lighting failed: '' @ exn_str e)))
                     (ret True))
               else ret has_lighting) (\<lambda>has_lighting.
         bind (hasattr env fx ''lighting_scroll'') (\<lambda>has_scroll.
         bind (if has_scroll then
                 seq (print (tick @ '' Scroll wheel lighting available''))
                (seq (try_except
                        (bind (getattr env fx ''lighting_scroll'') (\<lambda>scroll.
                         seq (call env scroll ''static'' [255, 255, 0])
                             (print (''  '' @ tick @ '' Scroll wheel static color working''))))
                        (\<lambda>e. print (''  '' @ cross @ '' Scroll wheel lighting failed: '' @ exn_str e)))
                     (ret True))
               else ret has_lighting) (\<lambda>has_lighting.
           ret has_lighting)))))))))))"

text \<open>
  One optional capability of \<^verbatim>\<open>test_other_capabilities\<close>: probe the attribute, read and
  print it inside a \<^verbatim>\<open>try\<close>, count it when that worked (lines 149 to 182, four times).
\<close>

definition dc_capability :: "env \<Rightarrow> pyval \<Rightarrow> string \<Rightarrow> (string \<Rightarrow> string) \<Rightarrow> string \<Rightarrow> int \<Rightarrow> int prog" where
  "dc_capability env device attr line failure capabilities_tested =
     bind (hasattr env device attr) (\<lambda>has.
       if has then
         try_except
           (bind (getattr env device attr) (\<lambda>v.
            seq (print (line (py_str v)))
                (ret (capabilities_tested + 1))))
           (\<lambda>e. seq (print (''  '' @ cross @ '' '' @ failure @ '' failed: '' @ exn_str e))
                    (ret capabilities_tested))
       else ret capabilities_tested)"

text \<open>\<^verbatim>\<open>test_other_capabilities\<close>, lines 127 to 187.\<close>

definition dc_test_other_capabilities :: "env \<Rightarrow> pyval \<Rightarrow> bool prog" where
  "dc_test_other_capabilities env device =
     bind (getattr env device ''name'') (\<lambda>name.
     seq (print (''\<newline>--- Other Capabilities for '' @ py_str name @ '' ---''))
    (bind (ret 0) (\<lambda>capabilities_tested.
     bind (hasattr env device ''dpi'') (\<lambda>has_dpi.
     bind (if has_dpi then
             try_except
               (bind (getattr env device ''dpi'') (\<lambda>original_dpi.
                seq (print (''  Current DPI: '' @ py_str original_dpi))
               (bind (hasattr env device ''available_dpi'') (\<lambda>has_available.
                seq (if has_available
                     then bind (getattr env device ''available_dpi'') (\<lambda>available.
                            print (''  Available DPI: '' @ py_str available))
                     else ret ())
                    (ret (capabilities_tested + 1))))))
               (\<lambda>e. seq (print (''  '' @ cross @ '' DPI test failed: '' @ exn_str e))
                        (ret capabilities_tested))
           else ret capabilities_tested) (\<lambda>capabilities_tested.
     bind (dc_capability env device ''battery_level''
             (\<lambda>v. ''  Battery level: '' @ v @ ''%'') ''Battery test'' capabilities_tested)
       (\<lambda>capabilities_tested.
     bind (dc_capability env device ''is_charging''
             (\<lambda>v. ''  Charging: '' @ v) ''Charging status test'' capabilities_tested)
       (\<lambda>capabilities_tested.
     bind (dc_capability env device ''idle_time''
             (\<lambda>v. ''  Idle time: '' @ v @ '' seconds'') ''Idle time test'' capabilities_tested)
       (\<lambda>capabilities_tested.
     bind (dc_capability env device ''game_mode_led''
             (\<lambda>v. ''  Game mode LED: '' @ v) ''Game mode test'' capabilities_tested)
       (\<lambda>capabilities_tested.
     seq (if capabilities_tested = 0
          then print ''  No additional capabilities detected''
          else ret ())
         (ret (capabilities_tested > 0)))))))))))"

text \<open>The body of the loop of \<^verbatim>\<open>main\<close>, lines 215 to 228, for device \<open>i\<close> of \<open>n\<close>.\<close>

definition dc_test_device :: "env \<Rightarrow> nat \<Rightarrow> nat \<times> pyval \<Rightarrow> unit prog" where
  "dc_test_device env n = (\<lambda>(i, device).
     seq (dc_test_device_info env device)
    (bind (dc_test_lighting_capabilities env device) (\<lambda>has_lighting.
     bind (dc_test_other_capabilities env device) (\<lambda>has_other.
     seq (if \<not> has_lighting \<and> \<not> has_other then
            bind (getattr env device ''name'') (\<lambda>name.
            seq (print (''\<newline>--- Detailed Capabilities for '' @ py_str name @ '' ---''))
           (seq (print ''Use this for debugging:'')
                (print_attrs env device)))
          else ret ())
         (if int i < int n - 1
          then print (''\<newline>'' @ replicate 50 (CHR ''=''))
          else ret ())))))"

text \<open>
  \<^verbatim>\<open>main\<close>, lines 190 to 231.  The \<^verbatim>\<open>return 1\<close> of the handler is the \<open>Inl\<close> of the
  first step.
\<close>

definition dc_main :: "env \<Rightarrow> int prog" where
  "dc_main env =
     seq (print ''OpenRazer Device Capability Test'')
    (seq (print ''================================='')
    (bind (try_except
             (bind (DeviceManager env) (\<lambda>device_manager. ret (Inr device_manager)))
             (\<lambda>e. seq (print (''Error connecting to OpenRazer daemon: '' @ exn_str e))
                 (seq (print ''Make sure the daemon is running: systemctl start openrazer-daemon'')
                      (ret (Inl (1::int)))))) (\<lambda>r.
       case r of
         Inl code \<Rightarrow> ret code
       | Inr device_manager \<Rightarrow>
           bind (devices env device_manager) (\<lambda>ds.
             if ds = [] then
               seq (print ''No OpenRazer devices found.'')
              (seq (print ''This could mean:'')
              (seq (print ''- No physical devices are connected'')
              (seq (print ''- Devices are not recognized by OpenRazer'')
              (seq (print ''- Driver issues'')
              (seq (print ''\<newline>For testing without hardware, try: ./scripts/quick_test_setup.sh'')
                   (ret 1))))))
             else
               seq (print (''Found '' @ str_int (int (length ds)) @ '' device(s)''))
              (seq (for_each (enumerate 0 ds) (dc_test_device env (length ds)))
              (seq (print (''\<newline>Testing completed for '' @ str_int (int (length ds)) @ '' device(s)''))
                   (ret 0)))))))"

text \<open>
  The script: the two imports of lines 11 and 12, then \<^verbatim>\<open>sys.exit(main())\<close>, lines 234
  and 235.
\<close>

definition dc_script :: "env \<Rightarrow> int prog" where
  "dc_script env =
     seq (import_from env ''openrazer.client'')
    (seq (import_from env ''openrazer.client.debug'')
    (bind (dc_main env) (\<lambda>exit_code. ret exit_code)))"

section \<open>Reading a log\<close>

text \<open>The shell commands of a log, each with the timeout it was given.\<close>

fun run_calls :: "event list \<Rightarrow> (string \<times> nat option) list" where
  "run_calls [] = []"
| "run_calls (Run c t p # es) = (c, t) # run_calls es"
| "run_calls (e # es) = run_calls es"

definition run_with :: "nat option \<Rightarrow> event \<Rightarrow> bool" where
  "run_with t e = (case e of Run c t' p \<Rightarrow> t' = t | _ \<Rightarrow> True)"

text \<open>
  What \<^verbatim>\<open>run_command\<close> of \<^verbatim>\<open>debug_workflow.py\<close> is expected to return for each
  behaviour of the command.
\<close>

fun dw_expected :: "proc \<Rightarrow> (bool \<times> string \<times> string) res" where
  "dw_expected (Exited d rc out err) =
     (if d \<le> 10 then Ret (rc = 0, out, err) else Ret (False, [], ''Timeout''))"
| "dw_expected Stuck = Ret (False, [], ''Timeout'')"
| "dw_expected (Failed e) =
     (if cls_of e = KeyboardInterrupt then Exc e
      else if cls_of e = TimeoutExpired then Ret (False, [], ''Timeout'')
      else Ret (False, [], exn_str e))"

text \<open>
  What \<^verbatim>\<open>run_command\<close> of \<^verbatim>\<open>debug_workflow.py\<close> is expected to print after the command
  for each behaviour of the command: its output and exit code, or the diagnostic of the
  handler.
\<close>

fun dw_report :: "proc \<Rightarrow> string list" where
  "dw_report (Exited d rc out err) =
     (if d \<le> 10
      then (if out \<noteq> [] then [''STDOUT:'', out] else [])
           @ (if err \<noteq> [] then [''STDERR:'', err] else [])
           @ [''Exit code: '' @ str_int rc]
      else [''Command timed out!''])"
| "dw_report Stuck = [''Command timed out!'']"
| "dw_report (Failed e) =
     (if cls_of e = KeyboardInterrupt then []
      else if cls_of e = TimeoutExpired then [''Command timed out!'']
      else [''Error running command: '' @ exn_str e])"

text \<open>
  What \<^verbatim>\<open>run_command\<close> of \<^verbatim>\<open>test_system.py\<close> is expected to return for each behaviour
  of the command.
\<close>

fun ts_expected :: "proc \<Rightarrow> (bool \<times> string \<times> string) res" where
  "ts_expected (Exited d rc out err) = Ret (rc = 0, out, err)"
| "ts_expected Stuck = Hang"
| "ts_expected (Failed e) =
     (if cls_of e = KeyboardInterrupt then Exc e else Ret (False, [], exn_str e))"

text \<open>
  What the entry point of \<^verbatim>\<open>debug_workflow.py\<close> is expected to make of the way \<^verbatim>\<open>main\<close>
  ended: the exit code, and the line it prints.
\<close>

fun dw_exit :: "int res \<Rightarrow> int res" where
  "dw_exit (Ret n) = Ret n"
| "dw_exit (Exc e) = Ret 1"
| "dw_exit Hang = Hang"

fun dw_last_words :: "int res \<Rightarrow> event list" where
  "dw_last_words (Exc e) =
     (if cls_of e = KeyboardInterrupt then [Print ''\<newline>\<newline>Debugging interrupted by user.'']
      else [Print (''\<newline>Unexpected error: '' @ exn_str e)])"
| "dw_last_words r = []"

section \<open>Sample environments\<close>

text \<open>
  One device \<open>PObj 1\<close> with every attribute the scripts look at; its \<^verbatim>\<open>fx\<close> object is
  \<open>PObj 2\<close> with the zones \<open>PObj 3\<close> (matrix), \<open>PObj 4\<close> (logo) and \<open>PObj 5\<close> (scroll wheel).
  The brightness of the matrix is what was last stored to it, 75 at first.

  \<open>stored_brightness obj v es\<close> is the brightness of the object \<open>obj\<close> after the log \<open>es\<close>
  when it was \<open>v\<close> before: the value of the last store to the \<^verbatim>\<open>brightness\<close> of that
  object that went through.
\<close>

fun stored_brightness :: "pyval \<Rightarrow> pyval \<Rightarrow> event list \<Rightarrow> pyval" where
  "stored_brightness obj v [] = v"
| "stored_brightness obj v (Set obj' n w None # es) =
     stored_brightness obj (if obj' = obj \<and> n = ''brightness'' then w else v) es"
| "stored_brightness obj v (e # es) = stored_brightness obj v es"

definition full_attr :: "event list \<Rightarrow> pyval \<Rightarrow> string \<Rightarrow> exn + pyval" where
  "full_attr h obj n =
     (if obj = PObj 1 \<and> n = ''fx'' then Inr (PObj 2)
      else if obj = PObj 1 \<and> n \<in> set [''name'', ''type'', ''serial'', ''firmware_version'',
                ''driver_version'', ''device_mode'', ''poll_rate'', ''dpi'', ''available_dpi'',
                ''battery_level'', ''is_charging'', ''idle_time'', ''game_mode_led'']
        then Inr (PStr n)
      else if obj = PObj 2 \<and> n = ''lighting_led_matrix'' then Inr (PObj 3)
      else if obj = PObj 2 \<and> n = ''lighting_logo'' then Inr (PObj 4)
      else if obj = PObj 2 \<and> n = ''lighting_scroll'' then Inr (PObj 5)
      else if obj = PObj 3 \<and> n = ''brightness'' then Inr (stored_brightness (PObj 3) (PInt 75) h)
      else if obj = PObj 3 \<and> n \<in> set [''static'', ''breath_random'', ''wave'', ''reactive'', ''spectrum'']
        then Inr (PObj 6)
      else Inl (Exn AttributeError ''no such attribute''))"

text \<open>Everything works: every command exits at once with code 0 and some output.\<close>

definition env_ok :: env where
  "env_ok = \<lparr>
     proc_of = (\<lambda>h c. Exited 1 0 ''Found active razer\<newline>'' []),
     spec_of = (\<lambda>h n. Inr True),
     import_of = (\<lambda>h n. None),
     manager_of = (\<lambda>h. Inr (PObj 0)),
     devices_of = (\<lambda>h dm. Inr [PObj 1]),
     attr_of = full_attr,
     store_of = (\<lambda>h obj n v. None),
     call_of = (\<lambda>h obj n args. None),
     dump_of = (\<lambda>h obj. None),
     write_of = (\<lambda>h path content. None),
     remove_of = (\<lambda>h path. None) \<rparr>"

text \<open>Every command exits with code 1 and no output.\<close>

definition env_fail :: env where
  "env_fail = env_ok \<lparr> proc_of := (\<lambda>h c. Exited 1 1 [] []) \<rparr>"

text \<open>No command ever exits.\<close>

definition env_stuck :: env where
  "env_stuck = env_ok \<lparr> proc_of := (\<lambda>h c. Stuck) \<rparr>"

text \<open>Only \<^verbatim>\<open>lsmod | grep razer\<close> fails.\<close>

definition env_no_modules :: env where
  "env_no_modules = env_ok \<lparr> proc_of := (\<lambda>h c.
     if c = ''lsmod | grep razer'' then Exited 1 1 [] []
     else Exited 1 0 ''Found active razer\<newline>'' []) \<rparr>"

text \<open>Reading the \<^verbatim>\<open>type\<close> of the device raises.\<close>

definition env_broken_type :: env where
  "env_broken_type = env_ok \<lparr> attr_of := (\<lambda>h obj n.
     if n = ''type'' then Inl (Exn OtherException ''DBus call failed'') else full_attr h obj n) \<rparr>"

text \<open>
  The programs a shell command line names: the first word of each stage of a pipeline
  and of each command substitution \<^verbatim>\<open>$(...)\<close>.
\<close>

fun first_word :: "string \<Rightarrow> string" where
  "first_word s = takeWhile (\<lambda>c. \<not> isspace c) (dropWhile isspace s)"

fun segments :: "string \<Rightarrow> string list" where
  "segments [] = [[]]"
| "segments [c] = (if c = CHR ''|'' then [[], []] else [[c]])"
| "segments (c # d # cs) =
     (if c = CHR ''|'' then [] # segments (d # cs)
      else if c = CHR ''$'' \<and> d = CHR ''('' then [] # segments cs
      else (case segments (d # cs) of [] \<Rightarrow> [[c]] | w # ws \<Rightarrow> (c # w) # ws))"

definition programs_in :: "string \<Rightarrow> string list" where
  "programs_in command = map first_word (segments command)"

definition commands_run :: "event list \<Rightarrow> string list" where
  "commands_run es = map fst (run_calls es)"

text \<open>The command lines that occur in the three scripts.\<close>

definition shell_commands :: "string list" where
  "shell_commands =
     [''lsusb | grep 1532'',
      ''lsmod | grep razer'',
      ''dkms status openrazer-driver'',
      ''find /lib/modules/$(uname -r) -name '' @ [CHR 0x27] @ ''*razer*'' @ [CHR 0x27],
      ''find /sys/bus/hid/drivers/razer* -name '' @ [CHR 0x27] @ ''*1532*'' @ [CHR 0x27]
         @ '' 2>/dev/null'',
      ''systemctl is-active openrazer-daemon'',
      ''journalctl -u openrazer-daemon --no-pager -n 10'',
      ''python3 -c '' @ [CHR 0x27]
         @ ''from openrazer.client import DeviceManager; print(''
         @ [CHR 0x22] @ ''Import successful'' @ [CHR 0x22] @ '')'' @ [CHR 0x27],
      ''python3 /tmp/test_devices.py'',
      ''groups | grep plugdev'']"

definition command_ok :: "event \<Rightarrow> bool" where
  "command_ok e = (case e of Run c t p \<Rightarrow> c \<in> set shell_commands | _ \<Rightarrow> True)"

text \<open>The programs the specification lists, and the programs the command lines name.\<close>

definition listed_programs :: "string list" where
  "listed_programs = [''lsusb'', ''lsmod'', ''dkms'', ''systemctl'', ''journalctl'', ''find'']"

definition named_programs :: "string list" where
  "named_programs =
     [''lsusb'', ''grep'', ''lsmod'', ''dkms'', ''find'', ''uname'', ''systemctl'', ''journalctl'',
      ''python3'', ''groups'']"

text \<open>The calls of \<^verbatim>\<open>check_step\<close> in a log: step name and truth of the condition.\<close>

fun checks :: "event list \<Rightarrow> (string \<times> bool) list" where
  "checks [] = []"
| "checks (Checked n c # es) = (n, c) # checks es"
| "checks (e # es) = checks es"

definition failed_steps :: "event list \<Rightarrow> string list" where
  "failed_steps es = map fst (filter (\<lambda>(n, c). \<not> c) (checks es))"

definition passed :: "string \<Rightarrow> event list \<Rightarrow> bool" where
  "passed n es = ((n, True) \<in> set (checks es))"

text \<open>The entry that \<^verbatim>\<open>main\<close> of \<^verbatim>\<open>debug_workflow.py\<close> appends when a step fails.\<close>

definition issue_of :: "string \<Rightarrow> string" where
  "issue_of step_name =
     (if step_name = ''Hardware Detection'' then ''No hardware detected''
      else if step_name = ''Kernel Module Loading'' then ''Kernel modules not loaded''
      else if step_name = ''Module Files'' then ''Module files missing''
      else if step_name = ''Device Files'' then ''Device files not created''
      else if step_name = ''Daemon Status'' then ''Daemon not running''
      else if step_name = ''Python Library'' then ''Python library import failed''
      else if step_name = ''Device Detection'' then ''Device detection failed''
      else ''User not in plugdev group'')"

text \<open>
  The steps of a run of \<^verbatim>\<open>debug_workflow.py\<close>, given whether the hardware, the kernel
  module and the Python library steps passed.
\<close>

definition dw_order :: "bool \<Rightarrow> bool \<Rightarrow> bool \<Rightarrow> string list" where
  "dw_order hw mods py =
     [''Hardware Detection'', ''Kernel Module Loading'', ''Module Files'']
     @ (if hw \<and> mods then [''Device Files''] else [])
     @ [''Daemon Status'', ''Python Library'']
     @ (if py then [''Device Detection''] else [])
     @ [''User Permissions'']"

text \<open>A statement that always comes back: it returns or raises.\<close>

definition halts :: "'a prog \<Rightarrow> bool" where
  "halts m = (\<forall>h. fst (m h) \<noteq> Hang)"

text \<open>A result that is not an \<^verbatim>\<open>Exception\<close> on its way out.\<close>

fun no_Exception :: "'a res \<Rightarrow> bool" where
  "no_Exception (Exc e) = (cls_of e = KeyboardInterrupt)"
| "no_Exception r = True"

text \<open>The user interrupts every command.\<close>

definition env_interrupt :: env where
  "env_interrupt = env_ok \<lparr> proc_of := (\<lambda>h c. Failed (Exn KeyboardInterrupt [])) \<rparr>"

text \<open>No file can be written.\<close>

definition env_no_write :: env where
  "env_no_write = env_ok \<lparr> write_of := (\<lambda>h path content. Some (Exn OtherException ''Permission denied'')) \<rparr>"

text \<open>No command can be started.\<close>

definition env_no_shell :: env where
  "env_no_shell = env_ok \<lparr> proc_of := (\<lambda>h c. Failed (Exn OtherException ''Cannot allocate memory'')) \<rparr>"

text \<open>
  What a program does, for every log it may start from: \<open>S\<close> holds of its result and of
  the events it adds.
\<close>

definition outcome :: "'a prog \<Rightarrow> ('a res \<Rightarrow> event list \<Rightarrow> bool) \<Rightarrow> bool" where
  "outcome m S = (\<forall>h. S (fst (m h)) (snd (m h)))"

definition on_return :: "('a \<Rightarrow> event list \<Rightarrow> bool) \<Rightarrow> 'a res \<Rightarrow> event list \<Rightarrow> bool" where
  "on_return R r es = (case r of Ret x \<Rightarrow> R x es | Exc e \<Rightarrow> True | Hang \<Rightarrow> True)"


text \<open>The attribute names read on an object, and the methods called, in a log.\<close>

fun attrs_read :: "pyval \<Rightarrow> event list \<Rightarrow> string list" where
  "attrs_read obj [] = []"
| "attrs_read obj (Get obj' n a # es) = (if obj' = obj then n # attrs_read obj es else attrs_read obj es)"
| "attrs_read obj (e # es) = attrs_read obj es"

fun methods_called :: "event list \<Rightarrow> string list" where
  "methods_called [] = []"
| "methods_called (Call obj n args a # es) = n # methods_called es"
| "methods_called (e # es) = methods_called es"

text \<open>The attributes the specification lists, and those the scripts read.\<close>

definition listed_attributes :: "string list" where
  "listed_attributes =
     [''name'', ''serial'', ''firmware_version'', ''driver_version'', ''fx'', ''dpi'', ''battery_level'']"

definition device_attributes :: "string list" where
  "device_attributes =
     [''name'', ''type'', ''serial'', ''firmware_version'', ''driver_version'', ''device_mode'',
      ''poll_rate'', ''fx'', ''dpi'', ''available_dpi'', ''battery_level'', ''is_charging'',
      ''idle_time'', ''game_mode_led'']"

definition lighting_attributes :: "string list" where
  "lighting_attributes = [''lighting_led_matrix'', ''lighting_logo'', ''lighting_scroll'', ''brightness'']"

definition effect_methods :: "string list" where
  "effect_methods = [''static'', ''breath_random'', ''wave'', ''reactive'', ''spectrum'']"

text \<open>
  An access to the client library that the scripts can make: a read of one of these
  attributes, a \<^verbatim>\<open>hasattr\<close> on an optional one or on an effect, a store to the
  brightness, a call of one of the five effects.
\<close>

definition access_ok :: "event \<Rightarrow> bool" where
  "access_ok e = (case e of
       Get obj n a \<Rightarrow> n \<in> set device_attributes \<or> n \<in> set lighting_attributes
     | Probe obj n a \<Rightarrow>
         n \<in> set device_attributes \<or> n \<in> set lighting_attributes \<or> n \<in> set effect_methods
     | Set obj n v a \<Rightarrow> n = ''brightness''
     | Call obj n args a \<Rightarrow> n \<in> set effect_methods
     | _ \<Rightarrow> True)"






text \<open>
  The accesses of a log that concern the brightness and went through, in the order of
  the log: \<open>Matrix m\<close> when reading \<^verbatim>\<open>lighting_led_matrix\<close> gave the object \<open>m\<close>,
  \<open>Reads obj v\<close> when reading the \<^verbatim>\<open>brightness\<close> of \<open>obj\<close> gave \<open>v\<close>, \<open>Writes obj v\<close> when
  \<open>v\<close> was stored to the \<^verbatim>\<open>brightness\<close> of \<open>obj\<close>; and whether an access to the client
  library raised.
\<close>

datatype access = Matrix pyval | Reads pyval pyval | Writes pyval pyval



text \<open>Printed lines: \<open>starts p s\<close> says that the text \<open>s\<close> begins with \<open>p\<close>.\<close>

definition starts :: "string \<Rightarrow> string \<Rightarrow> bool" where
  "starts p s = (take (length p) s = p)"

fun text_of :: "event \<Rightarrow> string option" where
  "text_of (Print s) = Some s"
| "text_of e = None"

text \<open>The next event is a printed line that begins with \<open>p\<close>.\<close>

definition next_line :: "string \<Rightarrow> event list \<Rightarrow> bool" where
  "next_line p es =
     (case es of [] \<Rightarrow> False
      | e # _ \<Rightarrow> (case text_of e of None \<Rightarrow> False | Some s \<Rightarrow> starts p s))"

text \<open>
  A remediation line of \<^verbatim>\<open>test_system.py\<close> is indented by two spaces; one of
  \<^verbatim>\<open>debug_workflow.py\<close> begins with \<^verbatim>\<open>TIP:\<close>.
\<close>

definition remedy_at :: "event list \<Rightarrow> bool" where
  "remedy_at es = (next_line ''  '' es \<or> next_line ''TIP: '' es)"

text \<open>
  The failure lines of \<^verbatim>\<open>test_system.py\<close>: the lines that begin with the cross, the
  line of the brightness test that ends with it, and the line of the handler of the
  lighting test.
\<close>

definition failure_line :: "string \<Rightarrow> bool" where
  "failure_line s =
     (starts cross s
      \<or> s = ''  - Brightness control: '' @ cross
      \<or> starts ''  - Lighting test failed: '' s)"

text \<open>
  Every printed failure line, unless exempted, is followed at once by a remediation
  line.
\<close>

fun remedies_follow :: "(string \<Rightarrow> bool) \<Rightarrow> event list \<Rightarrow> bool" where
  "remedies_follow ex [] = True"
| "remedies_follow ex (Print s # es) =
     ((\<not> failure_line s \<or> ex s \<or> remedy_at es) \<and> remedies_follow ex es)"
| "remedies_follow ex (e # es) = remedies_follow ex es"

definition no_line :: "string \<Rightarrow> bool" where
  "no_line s = False"

text \<open>The failure lines of \<^verbatim>\<open>test_system.py\<close> that come without a remediation.\<close>

definition unremedied :: "string \<Rightarrow> bool" where
  "unremedied s =
     (s = cross @ '' No OpenRazer kernel modules loaded''
      \<or> starts (cross @ '' Error testing device '') s
      \<or> s = ''  - Brightness control: '' @ cross
      \<or> starts ''  - Lighting test failed: '' s)"

text \<open>The printed lines of a log, and those from the first occurrence of a given line on.\<close>

definition printed :: "event list \<Rightarrow> string list" where
  "printed es = List.map_filter text_of es"

definition from_line :: "string \<Rightarrow> event list \<Rightarrow> string list" where
  "from_line s es = dropWhile (\<lambda>l. l \<noteq> s) (printed es)"

text \<open>The brightness of the matrix stays at 75 whatever is stored.\<close>

definition env_fixed_brightness :: env where
  "env_fixed_brightness = env_ok \<lparr> attr_of := (\<lambda>h obj n.
     if obj = PObj 3 \<and> n = ''brightness'' then Inr (PInt 75) else full_attr h obj n) \<rparr>"

text \<open>Storing a brightness raises.\<close>

definition env_no_store :: env where
  "env_no_store = env_ok \<lparr> store_of := (\<lambda>h obj n v. Some (Exn OtherException ''DBus call failed'')) \<rparr>"

text \<open>
  What follows a call of \<^verbatim>\<open>check_step\<close> in the log: the three lines of the header, then
  the line with the tick when the condition held, the line with the cross otherwise;
  and after the cross the \<^verbatim>\<open>TIP:\<close> line.
\<close>

definition verdict_at :: "bool \<Rightarrow> event list \<Rightarrow> bool" where
  "verdict_at c es =
     (4 \<le> length es \<and> list_all (\<lambda>e. text_of e \<noteq> None) (take 4 es)
      \<and> (case text_of (es ! 3) of None \<Rightarrow> False
          | Some s \<Rightarrow> starts (if c then tick else cross) s))"

definition tip_at :: "event list \<Rightarrow> bool" where
  "tip_at es = (verdict_at False es \<and> next_line ''TIP: '' (drop 4 es))"

fun verdicts_follow :: "event list \<Rightarrow> bool" where
  "verdicts_follow [] = True"
| "verdicts_follow (Checked n c # es) = (verdict_at c es \<and> verdicts_follow es)"
| "verdicts_follow (e # es) = verdicts_follow es"

fun tips_follow :: "event list \<Rightarrow> bool" where
  "tips_follow [] = True"
| "tips_follow (Checked n c # es) = ((c \<or> tip_at es) \<and> tips_follow es)"
| "tips_follow (e # es) = tips_follow es"

text \<open>The headers of the six tests of \<^verbatim>\<open>test_system.py\<close>.\<close>

definition ts_headers :: "string list" where
  "ts_headers =
     [''\<newline>1. Checking for Razer devices...'',
      ''\<newline>2. Checking kernel modules...'',
      ''\<newline>3. Checking Python library...'',
      ''\<newline>4. Testing device detection...'',
      ''\<newline>5. Checking daemon status...'',
      ''\<newline>6. Testing basic device functionality...'']"

text \<open>
  The headers of a log, and between them a mark for every printed line that begins with
  the tick or the cross.
\<close>

fun ts_marks :: "event list \<Rightarrow> string list" where
  "ts_marks [] = []"
| "ts_marks (Print s # es) =
     (if s \<in> set ts_headers then s # ts_marks es
      else if starts tick s \<or> starts cross s then ''verdict'' # ts_marks es
      else ts_marks es)"
| "ts_marks (e # es) = ts_marks es"

text \<open>
  The marks of a run of \<^verbatim>\<open>test_system.py\<close> that returns.  Test 4 prints a second verdict
  when reading a device fails after the devices were announced; test 6 prints one only
  when it fails.
\<close>

definition ts_plan :: "bool \<Rightarrow> bool \<Rightarrow> string list" where
  "ts_plan twice4 failed6 =
     [ts_headers ! 0, ''verdict'', ts_headers ! 1, ''verdict'', ts_headers ! 2, ''verdict'',
      ts_headers ! 3, ''verdict'']
     @ (if twice4 then [''verdict''] else [])
     @ [ts_headers ! 4, ''verdict'', ts_headers ! 5]
     @ (if failed6 then [''verdict''] else [])"

text \<open>Test 4 finds the devices, then reading the name of the device raises.\<close>

definition env_late_failure :: env where
  "env_late_failure = env_ok \<lparr> attr_of := (\<lambda>h obj n.
     if n = ''name'' then Inl (Exn OtherException ''DBus call failed'') else full_attr h obj n) \<rparr>"

section \<open>Reasoning about programs\<close>

text \<open>
  A property of the events a program adds that holds of the empty list and of the
  concatenation of two lists that have it can be shown statement by statement.
\<close>

definition closed :: "(event list \<Rightarrow> bool) \<Rightarrow> bool" where
  "closed Q = (Q [] \<and> (\<forall>a b. Q a \<longrightarrow> Q b \<longrightarrow> Q (a @ b)))"

definition yields :: "(event list \<Rightarrow> bool) \<Rightarrow> 'a prog \<Rightarrow> bool" where
  "yields Q m = (\<forall>h. Q (snd (m h)))"

lemma closed_list_all: "closed (list_all P)"
  by (simp add: closed_def)

lemma yields_ret: "closed Q \<Longrightarrow> yields Q (ret x)"
  by (simp add: yields_def ret_def closed_def)

lemma yields_raise: "closed Q \<Longrightarrow> yields Q (raise e)"
  by (simp add: yields_def raise_def closed_def)

lemma yields_bind:
  assumes "closed Q" "yields Q m" "\<And>x. yields Q (f x)"
  shows "yields Q (bind m f)"
  unfolding yields_def
proof
  fix h
  have m: "Q (snd (m h))" using assms(2) by (simp add: yields_def)
  show "Q (snd (bind m f h))"
  proof (cases "m h")
    case (Pair r es)
    show ?thesis
    proof (cases r)
      case (Ret x)
      obtain r' es' where f: "f x (h @ es) = (r', es')" by (cases "f x (h @ es)")
      have "Q es'" using assms(3) [of x] f by (auto simp: yields_def dest: spec [of _ "h @ es"])
      moreover have "Q es" using m Pair by simp
      ultimately have "Q (es @ es')" using assms(1) by (simp add: closed_def)
      then show ?thesis using Pair Ret f by (simp add: bind_def)
    next
      case (Exc e)
      then show ?thesis using m Pair by (simp add: bind_def)
    next
      case Hang
      then show ?thesis using m Pair by (simp add: bind_def)
    qed
  qed
qed

lemma yields_seq: "closed Q \<Longrightarrow> yields Q m \<Longrightarrow> yields Q n \<Longrightarrow> yields Q (seq m n)"
  by (simp add: seq_def yields_bind)

lemma yields_try_catch:
  assumes "closed Q" "yields Q m" "\<And>e. yields Q (f e)"
  shows "yields Q (try_catch c m f)"
  unfolding yields_def
proof
  fix h
  have m: "Q (snd (m h))" using assms(2) by (simp add: yields_def)
  show "Q (snd (try_catch c m f h))"
  proof (cases "m h")
    case (Pair r es)
    show ?thesis
    proof (cases r)
      case (Exc e)
      obtain r' es' where f: "f e (h @ es) = (r', es')" by (cases "f e (h @ es)")
      have "Q es'" using assms(3) [of e] f by (auto simp: yields_def dest: spec [of _ "h @ es"])
      moreover have "Q es" using m Pair by simp
      ultimately have "Q (es @ es')" using assms(1) by (simp add: closed_def)
      then show ?thesis using Pair Exc f m by (simp add: try_catch_def)
    next
      case (Ret x)
      then show ?thesis using m Pair by (simp add: try_catch_def)
    next
      case Hang
      then show ?thesis using m Pair by (simp add: try_catch_def)
    qed
  qed
qed

lemma yields_try_except:
  "closed Q \<Longrightarrow> yields Q m \<Longrightarrow> (\<And>e. yields Q (f e)) \<Longrightarrow> yields Q (try_except m f)"
  by (simp add: try_except_def yields_try_catch)

lemma yields_try_bare: "closed Q \<Longrightarrow> yields Q m \<Longrightarrow> yields Q n \<Longrightarrow> yields Q (try_bare m n)"
  by (simp add: try_bare_def yields_try_catch)

lemma yields_for_each:
  "closed Q \<Longrightarrow> (\<And>x. yields Q (body x)) \<Longrightarrow> yields Q (for_each xs body)"
  by (induction xs) (simp_all add: yields_ret yields_seq)

lemma yields_if:
  "(c \<Longrightarrow> yields Q a) \<Longrightarrow> (\<not> c \<Longrightarrow> yields Q b) \<Longrightarrow> yields Q (if c then a else b)"
  by simp

lemma yields_case_prod: "(\<And>a b. yields Q (f a b)) \<Longrightarrow> yields Q (case_prod f p)"
  by (cases p) simp

lemma yields_case_sum:
  "(\<And>a. yields Q (f a)) \<Longrightarrow> (\<And>b. yields Q (g b)) \<Longrightarrow> yields Q (case_sum f g s)"
  by (cases s) simp_all

lemma yields_print: "Q [Print s] \<Longrightarrow> yields Q (print s)"
  by (simp add: yields_def print_def)

lemma yields_sleep: "Q [Sleep d] \<Longrightarrow> yields Q (sleep_ms d)"
  by (simp add: yields_def sleep_ms_def)

lemma yields_event: "Q [e] \<Longrightarrow> yields Q (\<lambda>h. (Ret (), [e]))"
  by (simp add: yields_def)

lemma yields_run: "(\<And>p. Q [Run c t p]) \<Longrightarrow> yields Q (subprocess_run env c t)"
  by (simp add: yields_def subprocess_run_def Let_def)

lemma yields_find_spec: "(\<And>a. Q [FindSpec n a]) \<Longrightarrow> yields Q (find_spec env n)"
  by (simp add: yields_def find_spec_def Let_def)

lemma yields_import: "(\<And>a. Q [Import n a]) \<Longrightarrow> yields Q (import_from env n)"
  by (simp add: yields_def import_from_def Let_def)

lemma yields_manager: "(\<And>a. Q [NewManager a]) \<Longrightarrow> yields Q (DeviceManager env)"
  by (simp add: yields_def DeviceManager_def Let_def)

lemma yields_devices: "(\<And>a. Q [Devices dm a]) \<Longrightarrow> yields Q (devices env dm)"
  by (simp add: yields_def devices_def Let_def)

lemma yields_getattr: "(\<And>a. Q [Get obj n a]) \<Longrightarrow> yields Q (getattr env obj n)"
  by (simp add: yields_def getattr_def Let_def)

lemma yields_hasattr: "(\<And>a. Q [Probe obj n a]) \<Longrightarrow> yields Q (hasattr env obj n)"
  by (simp add: yields_def hasattr_def Let_def)

lemma yields_setattr: "(\<And>a. Q [Set obj n v a]) \<Longrightarrow> yields Q (setattr env obj n v)"
  by (simp add: yields_def setattr_def Let_def)

lemma yields_call: "(\<And>a. Q [Call obj n args a]) \<Longrightarrow> yields Q (call env obj n args)"
  by (simp add: yields_def call_def Let_def)

lemma yields_print_attrs: "(\<And>a. Q [PrintAttrs obj a]) \<Longrightarrow> yields Q (print_attrs env obj)"
  by (simp add: yields_def print_attrs_def Let_def)

lemma yields_write: "(\<And>a. Q [WriteFile p c a]) \<Longrightarrow> yields Q (write_file env p c)"
  by (simp add: yields_def write_file_def Let_def)

lemma yields_remove: "(\<And>a. Q [RemoveFile p a]) \<Longrightarrow> yields Q (os_remove env p)"
  by (simp add: yields_def os_remove_def Let_def)

lemma yields_index0: "closed Q \<Longrightarrow> yields Q (index0 xs)"
  by (cases xs) (simp_all add: index0_def yields_ret yields_raise)

lemmas yields_intros =
  yields_ret yields_raise yields_bind yields_seq yields_try_catch yields_try_except
  yields_try_bare yields_for_each yields_if yields_case_prod yields_case_sum yields_print
  yields_sleep yields_event yields_run yields_find_spec yields_import yields_manager
  yields_devices yields_getattr yields_hasattr yields_setattr yields_call yields_print_attrs
  yields_write yields_remove yields_index0 closed_list_all

lemmas dw_defs =
  dw_script_def dw_main_def dw_steps_def dw_summary_def dw_step1_def dw_step2_def dw_step3_def
  dw_step4_def dw_step5_def dw_step6_def dw_step7_def dw_step8_def dw_run_command_def
  dw_check_step_def

lemmas ts_defs =
  ts_script_def ts_main_def ts_checks_def ts_summary_def ts_test1_def ts_test2_def ts_test3_def
  ts_test4_def ts_test5_def ts_test6_def ts_brightness_test_def ts_matrix_def ts_run_command_def
  ts_check_import_def

lemmas dc_defs =
  dc_script_def dc_main_def dc_test_device_def dc_test_other_capabilities_def dc_capability_def
  dc_test_lighting_capabilities_def dc_effects_test_def dc_static_test_def
  dc_brightness_test_def dc_test_device_info_def

section \<open>The \<^verbatim>\<open>run_command\<close> helpers and their timeout\<close>

lemma run_calls_append: "run_calls (a @ b) = run_calls a @ run_calls b"
  by (induction a rule: run_calls.induct) simp_all

lemma dw_run_command_result:
  "fst (dw_run_command env command description h) =
     dw_expected (proc_of env (h @ [Print (''\<newline>'' @ description @ ''...''), Print (''$ '' @ command)]) command)"
  by (cases "proc_of env (h @ [Print (''\<newline>'' @ description @ ''...''), Print (''$ '' @ command)]) command")
     (auto simp: dw_run_command_def seq_def bind_def print_def try_except_def try_catch_def
        subprocess_run_def ret_def Let_def is_Exception_def split: prod.splits res.splits)

lemma dw_run_command_calls:
  "run_calls (snd (dw_run_command env command description h)) = [(command, Some 10)]"
  by (cases "proc_of env (h @ [Print (''\<newline>'' @ description @ ''...''), Print (''$ '' @ command)]) command")
     (auto simp: dw_run_command_def seq_def bind_def print_def try_except_def try_catch_def
        subprocess_run_def ret_def Let_def is_Exception_def split: prod.splits res.splits)

lemma ts_run_command_calls:
  "run_calls (snd (ts_run_command env command h)) = [(command, None)]"
  by (cases "proc_of env h command")
     (auto simp: ts_run_command_def bind_def try_except_def try_catch_def
        subprocess_run_def ret_def Let_def split: prod.splits res.splits)

lemma dw_script_timeouts: "yields (list_all (run_with (Some 10))) (dw_script env)"
  unfolding dw_defs
  by (intro yields_intros) (simp_all add: run_with_def)

text \<open>
  C2, as the code has it: \<^verbatim>\<open>run_command\<close> of \<^verbatim>\<open>debug_workflow.py\<close> starts the command
  exactly once, with a timeout of 10 seconds, as does every command of that script; when
  the command has not exited in time it returns \<open>(False, '''', ''Timeout'')\<close>, and it
  returns a failure with the message for every other \<^verbatim>\<open>Exception\<close>.  \<^verbatim>\<open>run_command\<close> of
  \<^verbatim>\<open>test_system.py\<close> starts the command exactly once too, but with no timeout.
\<close>

theorem run_command_single_attempt:
  "run_calls (snd (dw_run_command env command description h)) = [(command, Some 10)]
   \<and> fst (dw_run_command env command description h) =
       dw_expected (proc_of env (h @ [Print (''\<newline>'' @ description @ ''...''), Print (''$ '' @ command)]) command)
   \<and> list_all (run_with (Some 10)) (snd (dw_script env h))
   \<and> run_calls (snd (ts_run_command env command h)) = [(command, None)]"
  using dw_script_timeouts [of env]
  by (simp add: dw_run_command_calls dw_run_command_result ts_run_command_calls yields_def)

theorem run_command_single_attempt_witness:
  "fst (dw_run_command env_stuck ''lsusb | grep 1532'' ''Checking for Razer devices'' [])
     = Ret (False, [], ''Timeout'')
   \<and> run_calls (snd (dw_script env_stuck [])) \<noteq> []
   \<and> list_all (run_with (Some 10)) (snd (dw_script env_stuck []))"
proof -
  have "fst (dw_run_command env_stuck ''lsusb | grep 1532'' ''Checking for Razer devices'' [])
     = Ret (False, [], ''Timeout'')"
    using run_command_single_attempt [of env_stuck "''lsusb | grep 1532''" "''Checking for Razer devices''" "[]"]
    by (simp add: env_stuck_def env_ok_def)
  moreover have "run_calls (snd (dw_script env_stuck [])) \<noteq> []"
    by code_simp
  moreover have "list_all (run_with (Some 10)) (snd (dw_script env_stuck []))"
    using run_command_single_attempt [of env_stuck "''lsusb | grep 1532''" "''Checking for Razer devices''" "[]"]
    by simp
  ultimately show ?thesis by simp
qed

text \<open>
  C2 as stated fails on \<^verbatim>\<open>test_system.py\<close>: its command is started without a timeout,
  and the helper never returns when the command never exits.
\<close>

theorem run_command_timeout_counterexample:
  "ts_run_command env_stuck ''lsusb | grep 1532'' []
     = (Hang, [Run ''lsusb | grep 1532'' None Stuck])"
  by (simp add: ts_run_command_def env_stuck_def env_ok_def try_except_def try_catch_def bind_def
        subprocess_run_def)

section \<open>The programs the scripts shell out to\<close>

lemma dw_script_commands: "yields (list_all command_ok) (dw_script env)"
  unfolding dw_defs
  by (intro yields_intros) (simp_all add: command_ok_def shell_commands_def)

lemma ts_script_commands: "yields (list_all command_ok) (ts_script env)"
  unfolding ts_defs
  by (intro yields_intros) (simp_all add: command_ok_def shell_commands_def)

lemma dc_script_commands: "yields (list_all command_ok) (dc_script env)"
  unfolding dc_defs
  by (intro yields_intros) (simp_all add: command_ok_def)

lemma commands_of_two_runs:
  "set (commands_run (snd (dw_script env_ok [])) @ commands_run (snd (dw_script env_fail [])))
     = set shell_commands"
  by code_simp

lemma programs_of_commands: "set (concat (map programs_in shell_commands)) = set named_programs"
  by code_simp

text \<open>
  C4, as the code has it: every command line a script passes to the shell is one of ten
  fixed strings, each of them is run by \<^verbatim>\<open>debug_workflow.py\<close> in one of two sample runs,
  and the programs they name are \<^verbatim>\<open>lsusb\<close>, \<^verbatim>\<open>grep\<close>, \<^verbatim>\<open>lsmod\<close>, \<^verbatim>\<open>dkms\<close>, \<^verbatim>\<open>find\<close>,
  \<^verbatim>\<open>uname\<close>, \<^verbatim>\<open>systemctl\<close>, \<^verbatim>\<open>journalctl\<close>, \<^verbatim>\<open>python3\<close> and \<^verbatim>\<open>groups\<close>.
\<close>

theorem shell_programs_exact:
  "list_all command_ok (snd (dw_script env h))
   \<and> list_all command_ok (snd (ts_script env h))
   \<and> list_all command_ok (snd (dc_script env h))
   \<and> set (commands_run (snd (dw_script env_ok [])) @ commands_run (snd (dw_script env_fail [])))
       = set shell_commands
   \<and> set (concat (map programs_in shell_commands)) = set named_programs"
  using dw_script_commands [of env] ts_script_commands [of env] dc_script_commands [of env]
    commands_of_two_runs programs_of_commands
  by (simp add: yields_def)

theorem shell_programs_exact_witness:
  "list_all command_ok (snd (dw_script env_fail []))
   \<and> ''dkms status openrazer-driver'' \<in> set (commands_run (snd (dw_script env_fail [])))"
proof -
  have "''dkms status openrazer-driver'' \<in> set (commands_run (snd (dw_script env_fail [])))"
    by code_simp
  then show ?thesis
    using shell_programs_exact [of env_fail "[]"] by simp
qed

text \<open>
  C4 as stated fails: \<^verbatim>\<open>debug_workflow.py\<close> always runs \<^verbatim>\<open>groups | grep plugdev\<close>, and
  neither \<^verbatim>\<open>groups\<close> nor \<^verbatim>\<open>grep\<close> is among the six programs listed.
\<close>

theorem shell_programs_counterexample:
  "''groups'' \<in> set (concat (map programs_in (commands_run (snd (dw_script env_ok [])))))
   \<and> ''groups'' \<notin> set listed_programs
   \<and> ''grep'' \<in> set (concat (map programs_in (commands_run (snd (ts_script env_ok [])))))
   \<and> ''grep'' \<notin> set listed_programs"
  by code_simp

section \<open>Results and events of a program, statement by statement\<close>

lemma outcome_weaken: "outcome m P \<Longrightarrow> (\<And>r a. P r a \<Longrightarrow> S r a) \<Longrightarrow> outcome m S"
  by (simp add: outcome_def)

lemma outcome_ret: "S (Ret x) [] \<Longrightarrow> outcome (ret x) S"
  by (simp add: outcome_def ret_def)

lemma outcome_raise: "S (Exc e) [] \<Longrightarrow> outcome (raise e) S"
  by (simp add: outcome_def raise_def)

lemma outcome_print: "S (Ret ()) [Print s] \<Longrightarrow> outcome (print s) S"
  by (simp add: outcome_def print_def)

lemma outcome_bind:
  assumes "outcome m (\<lambda>r a. case r of Ret x \<Rightarrow> outcome (f x) (\<lambda>r' b. S r' (a @ b))
                                 | Exc e \<Rightarrow> S (Exc e) a | Hang \<Rightarrow> S Hang a)"
  shows "outcome (bind m f) S"
proof -
  have "S (fst (bind m f h)) (snd (bind m f h))" for h
    using assms [unfolded outcome_def, rule_format, of h]
    apply (cases "m h"; cases "fst (m h)")
      apply (auto simp: bind_def split: prod.splits)
    apply (metis fst_conv snd_conv)
    done
  then show ?thesis by (simp add: outcome_def)
qed

lemma outcome_seq:
  assumes "outcome m (\<lambda>r a. case r of Ret x \<Rightarrow> outcome n (\<lambda>r' b. S r' (a @ b))
                                 | Exc e \<Rightarrow> S (Exc e) a | Hang \<Rightarrow> S Hang a)"
  shows "outcome (seq m n) S"
  unfolding seq_def using assms by (rule outcome_bind)

lemma outcome_try_catch:
  assumes "outcome m (\<lambda>r a. case r of
              Exc e \<Rightarrow> (if c e then outcome (f e) (\<lambda>r' b. S r' (a @ b)) else S (Exc e) a)
            | Ret x \<Rightarrow> S (Ret x) a | Hang \<Rightarrow> S Hang a)"
  shows "outcome (try_catch c m f) S"
proof -
  have "S (fst (try_catch c m f h)) (snd (try_catch c m f h))" for h
    using assms [unfolded outcome_def, rule_format, of h]
    apply (cases "m h"; cases "fst (m h)")
      apply (auto simp: try_catch_def split: prod.splits)
    apply (metis fst_conv snd_conv)
    done
  then show ?thesis by (simp add: outcome_def)
qed

lemma outcome_if:
  "(c \<Longrightarrow> outcome a S) \<Longrightarrow> (\<not> c \<Longrightarrow> outcome b S) \<Longrightarrow> outcome (if c then a else b) S"
  by simp

lemma outcome_case_prod: "(\<And>a b. p = (a, b) \<Longrightarrow> outcome (f a b) S) \<Longrightarrow> outcome (case_prod f p) S"
  by (cases p) simp

lemma outcome_yields: "yields Q m \<Longrightarrow> (\<And>r a. Q a \<Longrightarrow> S r a) \<Longrightarrow> outcome m S"
  by (simp add: outcome_def yields_def)

lemma outcome_event: "S (Ret ()) [e] \<Longrightarrow> outcome (\<lambda>h. (Ret (), [e])) S"
  by (simp add: outcome_def)

lemma outcome_sleep: "S (Ret ()) [Sleep d] \<Longrightarrow> outcome (sleep_ms d) S"
  by (simp add: outcome_def sleep_ms_def)

lemma outcome_run:
  "(\<And>p. S (run_result t p) [Run c t p]) \<Longrightarrow> outcome (subprocess_run env c t) S"
  by (simp add: outcome_def subprocess_run_def Let_def)

lemma outcome_find_spec: "(\<And>a. S (of_sum a) [FindSpec n a]) \<Longrightarrow> outcome (find_spec env n) S"
  by (simp add: outcome_def find_spec_def Let_def)

lemma outcome_import: "(\<And>a. S (of_opt a) [Import n a]) \<Longrightarrow> outcome (import_from env n) S"
  by (simp add: outcome_def import_from_def Let_def)

lemma outcome_manager: "(\<And>a. S (of_sum a) [NewManager a]) \<Longrightarrow> outcome (DeviceManager env) S"
  by (simp add: outcome_def DeviceManager_def Let_def)

lemma outcome_devices: "(\<And>a. S (of_sum a) [Devices dm a]) \<Longrightarrow> outcome (devices env dm) S"
  by (simp add: outcome_def devices_def Let_def)

lemma outcome_getattr: "(\<And>a. S (of_sum a) [Get obj n a]) \<Longrightarrow> outcome (getattr env obj n) S"
  by (simp add: outcome_def getattr_def Let_def)

lemma outcome_hasattr: "(\<And>a. S (has_result a) [Probe obj n a]) \<Longrightarrow> outcome (hasattr env obj n) S"
  by (simp add: outcome_def hasattr_def Let_def)

lemma outcome_setattr: "(\<And>a. S (of_opt a) [Set obj n v a]) \<Longrightarrow> outcome (setattr env obj n v) S"
  by (simp add: outcome_def setattr_def Let_def)

lemma outcome_call: "(\<And>a. S (of_opt a) [Call obj n args a]) \<Longrightarrow> outcome (call env obj n args) S"
  by (simp add: outcome_def call_def Let_def)

lemma outcome_print_attrs: "(\<And>a. S (of_opt a) [PrintAttrs obj a]) \<Longrightarrow> outcome (print_attrs env obj) S"
  by (simp add: outcome_def print_attrs_def Let_def)

lemma outcome_write: "(\<And>a. S (of_opt a) [WriteFile p c a]) \<Longrightarrow> outcome (write_file env p c) S"
  by (simp add: outcome_def write_file_def Let_def)

lemma outcome_remove: "(\<And>a. S (of_opt a) [RemoveFile p a]) \<Longrightarrow> outcome (os_remove env p) S"
  by (simp add: outcome_def os_remove_def Let_def)

lemma outcome_try_except:
  assumes "outcome m (\<lambda>r a. case r of
              Exc e \<Rightarrow> (if is_Exception e then outcome (f e) (\<lambda>r' b. S r' (a @ b)) else S (Exc e) a)
            | Ret x \<Rightarrow> S (Ret x) a | Hang \<Rightarrow> S Hang a)"
  shows "outcome (try_except m f) S"
  unfolding try_except_def using assms by (rule outcome_try_catch)

lemma outcome_try_bare:
  assumes "outcome m (\<lambda>r a. case r of
              Exc e \<Rightarrow> outcome n (\<lambda>r' b. S r' (a @ b))
            | Ret x \<Rightarrow> S (Ret x) a | Hang \<Rightarrow> S Hang a)"
  shows "outcome (try_bare m n) S"
  unfolding try_bare_def
  by (rule outcome_try_catch) (rule outcome_weaken [OF assms], simp split: res.splits)

lemma for_each_print:
  assumes "\<And>x. body x = print (g x)"
  shows "for_each xs body = (\<lambda>h. (Ret (), map (\<lambda>x. Print (g x)) xs))"
  by (induction xs) (simp_all add: assms ret_def seq_def bind_def print_def)

lemma outcome_for_each_print:
  assumes "\<And>x. body x = print (g x)" "S (Ret ()) (map (\<lambda>x. Print (g x)) xs)"
  shows "outcome (for_each xs body) S"
  using assms(2) by (simp add: for_each_print [of body g, OF assms(1)] outcome_def)

lemmas outcome_prims = outcome_ret outcome_raise outcome_print outcome_event outcome_sleep
  outcome_run outcome_find_spec outcome_import outcome_manager outcome_devices outcome_getattr
  outcome_hasattr outcome_setattr outcome_call outcome_print_attrs outcome_write outcome_remove

lemmas outcome_ctrl = outcome_bind outcome_seq outcome_try_catch outcome_try_except outcome_try_bare
  outcome_if outcome_case_prod

lemma checks_append: "checks (a @ b) = checks a @ checks b"
  by (induction a rule: checks.induct) simp_all

lemma closed_no_checks: "closed (\<lambda>es. checks es = [])"
  by (simp add: closed_def checks_append)

lemma dw_run_command_no_checks: "yields (\<lambda>es. checks es = []) (dw_run_command env c d)"
  unfolding dw_run_command_def
  by (intro yields_intros closed_no_checks) simp_all

lemma dw_expected_cases: "dw_expected p \<noteq> Hang \<and> no_Exception (dw_expected p)"
  by (cases p) simp_all

lemma outcome_dw_run_command:
  assumes "\<And>r a. checks a = [] \<Longrightarrow> r \<noteq> Hang \<Longrightarrow> no_Exception r \<Longrightarrow> S r a"
  shows "outcome (dw_run_command env c d) S"
  unfolding outcome_def
proof
  fix h
  have "checks (snd (dw_run_command env c d h)) = []"
    using dw_run_command_no_checks [of env c d] by (simp add: yields_def)
  then show "S (fst (dw_run_command env c d h)) (snd (dw_run_command env c d h))"
    by (rule assms) (simp_all add: dw_run_command_result dw_expected_cases)
qed

lemma dw_check_step_eq:
  "dw_check_step n c s f t = (\<lambda>h. (Ret c,
     [Checked n c, Print (''\<newline>'' @ replicate 50 (CHR ''='')), Print (''STEP: '' @ n),
      Print (replicate 50 (CHR ''=''))]
     @ (if c then [Print (tick @ '' '' @ s)]
        else Print (cross @ '' '' @ f) # (if t \<noteq> [] then [Print (''TIP: '' @ t)] else []))))"
  by (rule ext) (simp add: dw_check_step_def seq_def bind_def print_def ret_def)

lemma outcome_dw_check_step:
  "S (Ret c) ([Checked n c, Print (''\<newline>'' @ replicate 50 (CHR ''='')), Print (''STEP: '' @ n),
      Print (replicate 50 (CHR ''=''))]
     @ (if c then [Print (tick @ '' '' @ s)]
        else Print (cross @ '' '' @ f) # (if t \<noteq> [] then [Print (''TIP: '' @ t)] else [])))
   \<Longrightarrow> outcome (dw_check_step n c s f t) S"
  by (simp add: outcome_def dw_check_step_eq)

lemmas dw_intros = outcome_dw_run_command outcome_dw_check_step outcome_prims outcome_ctrl

lemma ex_bool: "\<exists>c. c" "Ex Not"
  by auto

lemma of_opt_Hang [simp]: "of_opt a \<noteq> Hang"
  by (cases a) simp_all

lemma of_sum_Hang [simp]: "of_sum b \<noteq> Hang"
  by (cases b) simp_all

lemma has_result_Hang [simp]: "has_result b \<noteq> Hang"
  by (cases b) simp_all

lemma failed_steps_append: "failed_steps (a @ b) = failed_steps a @ failed_steps b"
  by (simp add: failed_steps_def checks_append)

lemma failed_steps_Print [simp]: "failed_steps (Print s # es) = failed_steps es"
  by (simp add: failed_steps_def)

lemmas dw_post_simps = checks_append failed_steps_def issue_of_def ex_bool on_return_def

lemma dw_step1_post:
  "outcome (dw_step1 env s) (\<lambda>r es. r \<noteq> Hang \<and> on_return (\<lambda>s' es.
     checks es = [(''Hardware Detection'', has_hardware s')]
     \<and> has_modules s' = has_modules s \<and> python_works s' = python_works s
     \<and> issues_found s' = issues_found s @ map issue_of (failed_steps es)) r es)"
  unfolding dw_step1_def
  by (auto intro!: dw_intros simp: dw_post_simps split: res.splits)

lemma dw_step2_post:
  "outcome (dw_step2 env s) (\<lambda>r es. r \<noteq> Hang \<and> on_return (\<lambda>s' es.
     checks es = [(''Kernel Module Loading'', has_modules s')]
     \<and> has_hardware s' = has_hardware s \<and> python_works s' = python_works s
     \<and> issues_found s' = issues_found s @ map issue_of (failed_steps es)) r es)"
  unfolding dw_step2_def
  by (auto intro!: dw_intros simp: dw_post_simps split: res.splits)

lemma dw_step3_post:
  "outcome (dw_step3 env s) (\<lambda>r es. r \<noteq> Hang \<and> on_return (\<lambda>s' es.
     map fst (checks es) = [''Module Files'']
     \<and> has_hardware s' = has_hardware s \<and> has_modules s' = has_modules s
     \<and> python_works s' = python_works s
     \<and> issues_found s' = issues_found s @ map issue_of (failed_steps es)) r es)"
  unfolding dw_step3_def
  by (auto intro!: dw_intros simp: dw_post_simps split: res.splits)

lemma dw_step4_post:
  "outcome (dw_step4 env s) (\<lambda>r es. r \<noteq> Hang \<and> on_return (\<lambda>s' es.
     map fst (checks es) = (if has_hardware s \<and> has_modules s then [''Device Files''] else [])
     \<and> has_hardware s' = has_hardware s \<and> has_modules s' = has_modules s
     \<and> python_works s' = python_works s
     \<and> issues_found s' = issues_found s @ map issue_of (failed_steps es)) r es)"
  unfolding dw_step4_def
  by (auto intro!: dw_intros simp: dw_post_simps split: res.splits)

lemma dw_step5_post:
  "outcome (dw_step5 env s) (\<lambda>r es. r \<noteq> Hang \<and> on_return (\<lambda>s' es.
     map fst (checks es) = [''Daemon Status'']
     \<and> has_hardware s' = has_hardware s \<and> has_modules s' = has_modules s
     \<and> python_works s' = python_works s
     \<and> issues_found s' = issues_found s @ map issue_of (failed_steps es)) r es)"
  unfolding dw_step5_def
  by (auto intro!: dw_intros simp: dw_post_simps split: res.splits)

lemma dw_step6_post:
  "outcome (dw_step6 env s) (\<lambda>r es. r \<noteq> Hang \<and> on_return (\<lambda>s' es.
     checks es = [(''Python Library'', python_works s')]
     \<and> has_hardware s' = has_hardware s \<and> has_modules s' = has_modules s
     \<and> issues_found s' = issues_found s @ map issue_of (failed_steps es)) r es)"
  unfolding dw_step6_def
  by (auto intro!: dw_intros simp: dw_post_simps split: res.splits)

lemma dw_step7_post:
  "outcome (dw_step7 env s) (\<lambda>r es. r \<noteq> Hang \<and> on_return (\<lambda>s' es.
     map fst (checks es) = (if python_works s then [''Device Detection''] else [])
     \<and> has_hardware s' = has_hardware s \<and> has_modules s' = has_modules s
     \<and> python_works s' = python_works s
     \<and> issues_found s' = issues_found s @ map issue_of (failed_steps es)) r es)"
  unfolding dw_step7_def
  by (auto intro!: dw_intros simp: dw_post_simps split: res.splits option.splits)

lemma dw_step8_post:
  "outcome (dw_step8 env s) (\<lambda>r es. r \<noteq> Hang \<and> on_return (\<lambda>s' es.
     map fst (checks es) = [''User Permissions'']
     \<and> has_hardware s' = has_hardware s \<and> has_modules s' = has_modules s
     \<and> python_works s' = python_works s
     \<and> issues_found s' = issues_found s @ map issue_of (failed_steps es)) r es)"
  unfolding dw_step8_def
  by (auto intro!: dw_intros simp: dw_post_simps split: res.splits)

lemmas dw_step_rules =
  outcome_weaken [OF dw_step1_post] outcome_weaken [OF dw_step2_post]
  outcome_weaken [OF dw_step3_post] outcome_weaken [OF dw_step4_post]
  outcome_weaken [OF dw_step5_post] outcome_weaken [OF dw_step6_post]
  outcome_weaken [OF dw_step7_post] outcome_weaken [OF dw_step8_post]

lemma dw_steps_post:
  "outcome (dw_steps env) (\<lambda>r es. r \<noteq> Hang \<and> on_return (\<lambda>s es.
     map fst (checks es) = dw_order (has_hardware s) (has_modules s) (python_works s)
     \<and> (''Hardware Detection'', has_hardware s) \<in> set (checks es)
     \<and> (''Kernel Module Loading'', has_modules s) \<in> set (checks es)
     \<and> (''Python Library'', python_works s) \<in> set (checks es)
     \<and> issues_found s = map issue_of (failed_steps es)) r es)"
  unfolding dw_steps_def
  by (auto intro!: outcome_seq outcome_bind outcome_print dw_step_rules
        simp: checks_append failed_steps_append dw_order_def on_return_def split: res.splits)

section \<open>The exit code of \<^verbatim>\<open>debug_workflow.py\<close>\<close>

lemma quiet_ret: "closed Q \<Longrightarrow> outcome (ret x) (\<lambda>r es. r = Ret x \<and> Q es)"
  by (simp add: outcome_def ret_def closed_def)

lemma quiet_print: "Q [Print s] \<Longrightarrow> outcome (print s) (\<lambda>r es. r = Ret () \<and> Q es)"
  by (simp add: outcome_def print_def)

lemma quiet_seq:
  assumes "closed Q" "outcome a (\<lambda>r es. r = Ret () \<and> Q es)" "outcome b (\<lambda>r es. r = Ret x \<and> Q es)"
  shows "outcome (seq a b) (\<lambda>r es. r = Ret x \<and> Q es)"
  using assms(1)
  by (auto intro!: outcome_seq outcome_weaken [OF assms(2)] outcome_weaken [OF assms(3)]
        simp: closed_def)

lemma quiet_if:
  "(c \<Longrightarrow> outcome a (\<lambda>r es. r = Ret x \<and> Q es)) \<Longrightarrow> (\<not> c \<Longrightarrow> outcome b (\<lambda>r es. r = Ret x \<and> Q es))
   \<Longrightarrow> outcome (if c then a else b) (\<lambda>r es. r = Ret x \<and> Q es)"
  by simp

lemma quiet_case_prod:
  "(\<And>a b. outcome (f a b) (\<lambda>r es. r = Ret x \<and> Q es))
   \<Longrightarrow> outcome (case_prod f p) (\<lambda>r es. r = Ret x \<and> Q es)"
  by (cases p) simp

lemma quiet_for_each:
  assumes "closed Q" "\<And>x. outcome (body x) (\<lambda>r es. r = Ret () \<and> Q es)"
  shows "outcome (for_each xs body) (\<lambda>r es. r = Ret () \<and> Q es)"
  by (induction xs) (simp_all add: quiet_ret quiet_seq assms)

lemmas quiet_intros = quiet_ret quiet_print quiet_seq quiet_if quiet_case_prod quiet_for_each

lemma dw_summary_post:
  "outcome (dw_summary issues) (\<lambda>r es. r = Ret (int (length issues)) \<and> checks es = [])"
  unfolding dw_summary_def
  by (intro quiet_intros closed_no_checks) simp_all

lemma passed_eq:
  assumes "distinct (map fst (checks es))" "(n, b) \<in> set (checks es)"
  shows "passed n es = b"
  using assms eq_key_imp_eq_value [of "checks es" n True b]
  by (cases b) (auto simp: passed_def)

lemma distinct_dw_order: "distinct (dw_order hw mods py)"
  by (simp add: dw_order_def)

lemma dw_steps_order:
  "outcome (dw_steps env) (\<lambda>r es. r \<noteq> Hang \<and> on_return (\<lambda>s es.
     map fst (checks es)
       = dw_order (passed ''Hardware Detection'' es) (passed ''Kernel Module Loading'' es)
           (passed ''Python Library'' es)
     \<and> issues_found s = map issue_of (failed_steps es)) r es)"
proof (rule outcome_weaken [OF dw_steps_post])
  fix r :: "dw_state res" and es
  assume a: "r \<noteq> Hang \<and> on_return (\<lambda>s es.
     map fst (checks es) = dw_order (has_hardware s) (has_modules s) (python_works s)
     \<and> (''Hardware Detection'', has_hardware s) \<in> set (checks es)
     \<and> (''Kernel Module Loading'', has_modules s) \<in> set (checks es)
     \<and> (''Python Library'', python_works s) \<in> set (checks es)
     \<and> issues_found s = map issue_of (failed_steps es)) r es"
  show "r \<noteq> Hang \<and> on_return (\<lambda>s es.
     map fst (checks es)
       = dw_order (passed ''Hardware Detection'' es) (passed ''Kernel Module Loading'' es)
           (passed ''Python Library'' es)
     \<and> issues_found s = map issue_of (failed_steps es)) r es"
  proof (cases r)
    case (Ret s)
    have o: "map fst (checks es) = dw_order (has_hardware s) (has_modules s) (python_works s)"
      and m: "(''Hardware Detection'', has_hardware s) \<in> set (checks es)"
        "(''Kernel Module Loading'', has_modules s) \<in> set (checks es)"
        "(''Python Library'', python_works s) \<in> set (checks es)"
      and i: "issues_found s = map issue_of (failed_steps es)"
      using a Ret by (simp_all add: on_return_def)
    have d: "distinct (map fst (checks es))"
      by (simp add: o distinct_dw_order)
    show ?thesis
      using Ret o i passed_eq [OF d m(1)] passed_eq [OF d m(2)] passed_eq [OF d m(3)]
      by (simp add: on_return_def)
  next
    case (Exc e)
    then show ?thesis by (simp add: on_return_def)
  next
    case Hang
    then show ?thesis using a by simp
  qed
qed

lemma failed_steps_quiet: "checks b = [] \<Longrightarrow> failed_steps (a @ b) = failed_steps a"
  by (simp add: failed_steps_def checks_append)

lemma passed_quiet: "checks b = [] \<Longrightarrow> passed n (a @ b) = passed n a"
  by (simp add: passed_def checks_append)

lemma dw_main_post:
  "outcome (dw_main env) (\<lambda>r es. r \<noteq> Hang \<and> on_return (\<lambda>n es.
     n = int (length (failed_steps es))
     \<and> map fst (checks es)
         = dw_order (passed ''Hardware Detection'' es) (passed ''Kernel Module Loading'' es)
             (passed ''Python Library'' es)) r es)"
  unfolding dw_main_def
  by (auto intro!: outcome_bind outcome_weaken [OF dw_steps_order] outcome_weaken [OF dw_summary_post]
      simp: on_return_def checks_append failed_steps_quiet passed_quiet split: res.splits)

lemma dw_main_issues:
  assumes "fst (dw_main env h) = Ret n"
  shows "\<exists>s. fst (dw_steps env h) = Ret s \<and> n = int (length (issues_found s))"
proof (cases "fst (dw_steps env h)")
  case (Ret s)
  have "fst (dw_summary (issues_found s) (h @ snd (dw_steps env h))) = Ret (int (length (issues_found s)))"
    using dw_summary_post [of "issues_found s"] by (simp add: outcome_def)
  then show ?thesis
    using assms Ret by (cases "dw_steps env h") (auto simp: dw_main_def bind_def split: prod.splits)
next
  case (Exc e)
  then show ?thesis using assms by (cases "dw_steps env h") (simp add: dw_main_def bind_def)
next
  case Hang
  then show ?thesis using assms by (cases "dw_steps env h") (simp add: dw_main_def bind_def)
qed

lemma dw_script_result:
  "fst (dw_script env h) = (case fst (dw_main env h) of Ret n \<Rightarrow> Ret n | Exc e \<Rightarrow> Ret 1 | Hang \<Rightarrow> Hang)"
  by (cases "dw_main env h"; cases "fst (dw_main env h)")
     (auto simp: dw_script_def try_catch_def bind_def ret_def seq_def print_def is_Exception_def
        split: prod.splits res.splits)

text \<open>
  C9: when \<^verbatim>\<open>main\<close> of \<^verbatim>\<open>debug_workflow.py\<close> returns, the value is the number of
  entries of \<^verbatim>\<open>issues_found\<close>, which is the number of calls of \<^verbatim>\<open>check_step\<close> whose
  condition was false, and the process exits with that value (0 exactly when no step
  failed); when \<^verbatim>\<open>main\<close> raises, \<^verbatim>\<open>KeyboardInterrupt\<close> or any \<^verbatim>\<open>Exception\<close>, the process
  exits with 1.  \<^verbatim>\<open>main\<close> cannot wait for ever: every command has a timeout.
\<close>

theorem dw_exit_code:
  "(fst (dw_main env h) = Ret n \<longrightarrow>
      fst (dw_script env h) = Ret n
      \<and> n = int (length (failed_steps (snd (dw_main env h))))
      \<and> (\<exists>s. fst (dw_steps env h) = Ret s \<and> n = int (length (issues_found s)))
      \<and> (n = 0 \<longleftrightarrow> failed_steps (snd (dw_main env h)) = []))
   \<and> (fst (dw_main env h) = Exc e \<longrightarrow> fst (dw_script env h) = Ret 1)
   \<and> fst (dw_main env h) \<noteq> Hang"
  using dw_main_post [of env, unfolded outcome_def, rule_format, of h] dw_main_issues [of env h n]
  by (auto simp: dw_script_result on_return_def)

theorem dw_exit_code_witness:
  "fst (dw_main env_fail []) = Ret 6 \<and> fst (dw_script env_fail []) = Ret 6
   \<and> length (failed_steps (snd (dw_main env_fail []))) = 6
   \<and> fst (dw_main env_interrupt []) = Exc (Exn KeyboardInterrupt [])
   \<and> fst (dw_script env_interrupt []) = Ret 1"
proof -
  have a: "fst (dw_main env_fail []) = Ret 6"
    by code_simp
  have b: "fst (dw_main env_interrupt []) = Exc (Exn KeyboardInterrupt [])"
    by code_simp
  show ?thesis
    using dw_exit_code [of env_fail "[]" 6 "Exn KeyboardInterrupt []"]
      dw_exit_code [of env_interrupt "[]" 6 "Exn KeyboardInterrupt []"] a b
    by simp
qed

lemma dw_script_eq:
  "dw_script env h
     = (dw_exit (fst (dw_main env h)), snd (dw_main env h) @ dw_last_words (fst (dw_main env h)))"
  by (cases "dw_main env h"; cases "fst (dw_main env h)")
     (auto simp: dw_script_def try_catch_def bind_def ret_def seq_def print_def is_Exception_def
        split: prod.splits res.splits)

lemma dw_run_command_eq:
  "dw_run_command env command description h =
     (dw_expected (proc_of env (h @ [Print (''\<newline>'' @ description @ ''...''), Print (''$ '' @ command)]) command),
      [Print (''\<newline>'' @ description @ ''...''), Print (''$ '' @ command),
       Run command (Some 10)
         (proc_of env (h @ [Print (''\<newline>'' @ description @ ''...''), Print (''$ '' @ command)]) command)]
      @ map Print (dw_report
         (proc_of env (h @ [Print (''\<newline>'' @ description @ ''...''), Print (''$ '' @ command)]) command)))"
  by (cases "proc_of env (h @ [Print (''\<newline>'' @ description @ ''...''), Print (''$ '' @ command)]) command")
     (auto simp: dw_run_command_def seq_def bind_def print_def try_except_def try_catch_def
        subprocess_run_def ret_def Let_def is_Exception_def split: prod.splits res.splits)

lemma ts_run_command_eq:
  "ts_run_command env command h
     = (ts_expected (proc_of env h command), [Run command None (proc_of env h command)])"
  by (cases "proc_of env h command")
     (auto simp: ts_run_command_def bind_def try_except_def try_catch_def
        subprocess_run_def ret_def Let_def is_Exception_def split: prod.splits res.splits)

text \<open>
  C1, as the code has it, for the runs in which every \<^verbatim>\<open>print\<close> of the script succeeds.
  \<^verbatim>\<open>debug_workflow.py\<close> always ends through \<^verbatim>\<open>sys.exit\<close>: \<^verbatim>\<open>main\<close> returns or raises, and
  whatever it raises, \<^verbatim>\<open>KeyboardInterrupt\<close> or an \<^verbatim>\<open>Exception\<close>, the entry point catches,
  prints ``Debugging interrupted by user.'' or ``Unexpected error:'' with the message as
  its last line, and exits with code 1; otherwise the exit code is the value of \<^verbatim>\<open>main\<close>
  and nothing more is printed.  \<^verbatim>\<open>run_command\<close> of \<^verbatim>\<open>debug_workflow.py\<close> starts the command
  once and then, for every \<^verbatim>\<open>Exception\<close> of the subprocess call, prints ``Command timed
  out!'' or ``Error running command:'' with the message and returns
  \<open>(False, '''', message)\<close>.  \<^verbatim>\<open>run_command\<close> of \<^verbatim>\<open>test_system.py\<close> returns
  \<open>(False, '''', message)\<close> for every \<^verbatim>\<open>Exception\<close> of the call and prints nothing.  Only
  \<^verbatim>\<open>KeyboardInterrupt\<close> passes through the two helpers.
\<close>

theorem dw_no_unhandled_exception:
  "dw_script env h
     = (dw_exit (fst (dw_main env h)), snd (dw_main env h) @ dw_last_words (fst (dw_main env h)))
   \<and> fst (dw_main env h) \<noteq> Hang
   \<and> (\<exists>code. fst (dw_script env h) = Ret code)
   \<and> dw_run_command env c d h =
       (dw_expected (proc_of env (h @ [Print (''\<newline>'' @ d @ ''...''), Print (''$ '' @ c)]) c),
        [Print (''\<newline>'' @ d @ ''...''), Print (''$ '' @ c),
         Run c (Some 10) (proc_of env (h @ [Print (''\<newline>'' @ d @ ''...''), Print (''$ '' @ c)]) c)]
        @ map Print (dw_report (proc_of env (h @ [Print (''\<newline>'' @ d @ ''...''), Print (''$ '' @ c)]) c)))
   \<and> ts_run_command env c h = (ts_expected (proc_of env h c), [Run c None (proc_of env h c)])"
proof -
  have a: "fst (dw_main env h) \<noteq> Hang"
    using dw_main_post [of env, unfolded outcome_def, rule_format, of h] by simp
  then have b: "\<exists>code. fst (dw_script env h) = Ret code"
    by (cases "fst (dw_main env h)") (simp_all add: dw_script_eq)
  show ?thesis
    using a b dw_script_eq [of env h] dw_run_command_eq [of env c d h] ts_run_command_eq [of env c h]
    by blast
qed

theorem dw_no_unhandled_exception_witness:
  "dw_script env_interrupt []
     = (Ret 1, snd (dw_main env_interrupt []) @ [Print ''\<newline>\<newline>Debugging interrupted by user.''])
   \<and> dw_script env_no_write []
     = (Ret 1, snd (dw_main env_no_write []) @ [Print ''\<newline>Unexpected error: Permission denied''])
   \<and> dw_run_command env_no_shell ''lsusb | grep 1532'' ''Checking for Razer devices'' []
     = (Ret (False, [], ''Cannot allocate memory''),
        [Print ''\<newline>Checking for Razer devices...'', Print ''$ lsusb | grep 1532'',
         Run ''lsusb | grep 1532'' (Some 10) (Failed (Exn OtherException ''Cannot allocate memory'')),
         Print ''Error running command: Cannot allocate memory''])
   \<and> ts_run_command env_no_shell ''lsusb | grep 1532'' []
     = (Ret (False, [], ''Cannot allocate memory''),
        [Run ''lsusb | grep 1532'' None (Failed (Exn OtherException ''Cannot allocate memory''))])"
proof -
  have a: "fst (dw_main env_interrupt []) = Exc (Exn KeyboardInterrupt [])"
    by code_simp
  have b: "fst (dw_main env_no_write []) = Exc (Exn OtherException ''Permission denied'')"
    by code_simp
  have c: "dw_script env_interrupt []
     = (Ret 1, snd (dw_main env_interrupt []) @ [Print ''\<newline>\<newline>Debugging interrupted by user.''])"
    using dw_no_unhandled_exception [of env_interrupt "[]" "[]" "[]"] a by simp
  have d: "dw_script env_no_write []
     = (Ret 1, snd (dw_main env_no_write []) @ [Print ''\<newline>Unexpected error: Permission denied''])"
    using dw_no_unhandled_exception [of env_no_write "[]" "[]" "[]"] b by simp
  have e: "proc_of env_no_shell hh cc = Failed (Exn OtherException ''Cannot allocate memory'')" for hh cc
    by (simp add: env_no_shell_def env_ok_def)
  show ?thesis
    using dw_no_unhandled_exception [of env_no_shell "[]" "''lsusb | grep 1532''" "''Checking for Razer devices''"] c d
    by (simp add: e)
qed

text \<open>
  C1 as stated fails: \<^verbatim>\<open>test_device_info\<close> reads \<^verbatim>\<open>device.type\<close> outside every
  \<^verbatim>\<open>try\<close>, and \<^verbatim>\<open>test_device_capabilities.py\<close> has no handler around \<^verbatim>\<open>main\<close>, so an
  exception of that read ends the script.
\<close>

theorem unhandled_exception_counterexample:
  "fst (dc_script env_broken_type []) = Exc (Exn OtherException ''DBus call failed'')"
  by code_simp

section \<open>The counters and the return code of \<^verbatim>\<open>test_system.py\<close>\<close>


lemma outcome_index0:
  "(xs = [] \<Longrightarrow> S (Exc (Exn IndexError ''list index out of range'')) [])
   \<Longrightarrow> (\<And>x ys. xs = x # ys \<Longrightarrow> S (Ret x) [])
   \<Longrightarrow> outcome (index0 xs) S"
  by (cases xs) (simp_all add: outcome_def index0_def raise_def ret_def)













section \<open>The attributes read and the effects called\<close>

lemmas access_simps = access_ok_def device_attributes_def lighting_attributes_def effect_methods_def

lemma dc_script_accesses: "yields (list_all access_ok) (dc_script env)"
  unfolding dc_defs effects_to_test_def for_each.simps prod.case
  by (intro yields_intros) (simp_all add: access_simps)

lemma ts_script_accesses: "yields (list_all access_ok) (ts_script env)"
  unfolding ts_defs
  by (intro yields_intros) (simp_all add: access_simps)

lemma dw_script_accesses: "yields (list_all access_ok) (dw_script env)"
  unfolding dw_defs
  by (intro yields_intros) (simp_all add: access_simps)

lemma full_device_accesses:
  "set (attrs_read (PObj 1) (snd (dc_script env_ok []))) = set device_attributes
   \<and> set (methods_called (snd (dc_script env_ok []))) = set effect_methods"
  by code_simp

text \<open>
  C3, as the code has it: every attribute the scripts read is one of \<^verbatim>\<open>name\<close>,
  \<^verbatim>\<open>type\<close>, \<^verbatim>\<open>serial\<close>, \<^verbatim>\<open>firmware_version\<close>, \<^verbatim>\<open>driver_version\<close>, \<^verbatim>\<open>device_mode\<close>,
  \<^verbatim>\<open>poll_rate\<close>, \<^verbatim>\<open>fx\<close>, \<^verbatim>\<open>dpi\<close>, \<^verbatim>\<open>available_dpi\<close>, \<^verbatim>\<open>battery_level\<close>,
  \<^verbatim>\<open>is_charging\<close>, \<^verbatim>\<open>idle_time\<close>, \<^verbatim>\<open>game_mode_led\<close> (of a device) or
  \<^verbatim>\<open>lighting_led_matrix\<close>, \<^verbatim>\<open>lighting_logo\<close>, \<^verbatim>\<open>lighting_scroll\<close>, \<^verbatim>\<open>brightness\<close> (of its
  lighting objects), the only attribute stored to is \<^verbatim>\<open>brightness\<close>, and every method
  called is one of \<^verbatim>\<open>static\<close>, \<^verbatim>\<open>breath_random\<close>, \<^verbatim>\<open>wave\<close>, \<^verbatim>\<open>reactive\<close>, \<^verbatim>\<open>spectrum\<close>.
  On a device that has them all, \<^verbatim>\<open>test_device_capabilities.py\<close> reads all fourteen
  device attributes and calls all five effects.
\<close>

theorem library_accesses:
  "list_all access_ok (snd (dc_script env h))
   \<and> list_all access_ok (snd (ts_script env h))
   \<and> list_all access_ok (snd (dw_script env h))
   \<and> set (attrs_read (PObj 1) (snd (dc_script env_ok []))) = set device_attributes
   \<and> set (methods_called (snd (dc_script env_ok []))) = set effect_methods"
  using dc_script_accesses [of env] ts_script_accesses [of env] dw_script_accesses [of env]
    full_device_accesses
  by (simp add: yields_def)

theorem library_accesses_witness:
  "list_all access_ok (snd (dc_script env_ok []))
   \<and> ''game_mode_led'' \<in> set (attrs_read (PObj 1) (snd (dc_script env_ok [])))
   \<and> ''spectrum'' \<in> set (methods_called (snd (dc_script env_ok [])))"
  using library_accesses [of env_ok "[]"]
  by (simp add: device_attributes_def effect_methods_def)

text \<open>
  C3 as stated fails: both \<^verbatim>\<open>test_device_capabilities.py\<close> and \<^verbatim>\<open>test_system.py\<close>
  read \<^verbatim>\<open>device.type\<close>, which is not among the seven attributes listed.
\<close>

theorem library_accesses_counterexample:
  "''type'' \<in> set (attrs_read (PObj 1) (snd (dc_script env_ok [])))
   \<and> ''type'' \<notin> set listed_attributes
   \<and> ''type'' \<in> set (attrs_read (PObj 1) (snd (ts_script env_ok [])))"
  by code_simp

section \<open>The sleeps of the scripts\<close>




lemma of_opt_Ret [simp]: "of_opt a = Ret x \<longleftrightarrow> a = None"
  by (cases a) simp_all












section \<open>The brightness tests\<close>

lemma of_sum_Ret [simp]: "of_sum a = Ret x \<longleftrightarrow> a = Inr x"
  by (cases a) simp_all

lemma of_sum_Exc [simp]: "of_sum a = Exc e \<longleftrightarrow> a = Inl e"
  by (cases a) simp_all

lemma of_opt_Exc [simp]: "of_opt a = Exc e \<longleftrightarrow> a = Some e"
  by (cases a) simp_all






section \<open>What is printed when a check fails\<close>

lemma next_line_append: "next_line p a \<Longrightarrow> next_line p (a @ b)"
  by (cases a) (simp_all add: next_line_def)

lemma verdict_at_append: "verdict_at c a \<Longrightarrow> verdict_at c (a @ b)"
  by (simp add: verdict_at_def nth_append)

lemma tip_at_append: "tip_at a \<Longrightarrow> tip_at (a @ b)"
  by (auto simp: tip_at_def verdict_at_append next_line_append)

lemma tips_follow_append: "tips_follow a \<Longrightarrow> tips_follow b \<Longrightarrow> tips_follow (a @ b)"
  by (induction a rule: tips_follow.induct) (auto simp: tip_at_append)

lemma verdicts_follow_append: "verdicts_follow a \<Longrightarrow> verdicts_follow b \<Longrightarrow> verdicts_follow (a @ b)"
  by (induction a rule: verdicts_follow.induct) (auto simp: verdict_at_append)

lemma remedies_follow_append:
  "remedies_follow ex a \<Longrightarrow> remedies_follow ex b \<Longrightarrow> remedies_follow ex (a @ b)"
  by (induction ex a rule: remedies_follow.induct)
     (auto simp: remedy_at_def next_line_append)

lemma closed_tips_follow: "closed tips_follow"
  by (simp add: closed_def tips_follow_append)

lemma closed_verdicts_follow: "closed verdicts_follow"
  by (simp add: closed_def verdicts_follow_append)

lemma closed_remedies_follow: "closed (remedies_follow ex)"
  by (simp add: closed_def remedies_follow_append)

lemma dw_check_step_tips: "t \<noteq> [] \<Longrightarrow> yields tips_follow (dw_check_step n c s f t)"
  by (simp add: yields_def dw_check_step_eq tip_at_def verdict_at_def next_line_def starts_def)

lemma dw_check_step_verdicts: "yields verdicts_follow (dw_check_step n c s f t)"
  by (simp add: yields_def dw_check_step_eq verdict_at_def starts_def)

lemmas dw_defs' =
  dw_script_def dw_main_def dw_steps_def dw_summary_def dw_step1_def dw_step2_def dw_step3_def
  dw_step4_def dw_step5_def dw_step6_def dw_step7_def dw_step8_def dw_run_command_def

lemma dw_script_tips: "yields tips_follow (dw_script env)"
  unfolding dw_defs'
  by (intro yields_intros closed_tips_follow dw_check_step_tips) simp_all

lemma dw_script_verdicts: "yields verdicts_follow (dw_script env)"
  unfolding dw_defs'
  by (intro yields_intros closed_verdicts_follow dw_check_step_verdicts) simp_all

lemma yields_print2:
  assumes "closed Q" "Q [Print a, Print b]" "yields Q m"
  shows "yields Q (seq (print a) (seq (print b) m))"
proof -
  have e: "snd (seq (print a) (seq (print b) m) h)
             = [Print a, Print b] @ snd (m (h @ [Print a, Print b]))" for h
    by (simp add: seq_def bind_def print_def split: prod.splits res.splits)
  have "Q ([Print a, Print b] @ snd (m h'))" for h'
    using assms unfolding closed_def yields_def by blast
  then show ?thesis
    unfolding yields_def e by blast
qed

lemma remedies_follow_mono:
  "(\<And>s. failure_line s \<Longrightarrow> ex' s \<Longrightarrow> ex s) \<Longrightarrow> remedies_follow ex' es \<Longrightarrow> remedies_follow ex es"
  by (induction ex' es rule: remedies_follow.induct) auto

lemmas remedy_simps = remedy_at_def next_line_def starts_def tick_def cross_def
  party_def warning_sign_def cross_mark_def

lemma ts_script_cross_remedies:
  "yields (remedies_follow (\<lambda>s. \<not> starts cross s
             \<or> s = cross @ '' No OpenRazer kernel modules loaded''
             \<or> starts (cross @ '' Error testing device '') s)) (ts_script env)"
  unfolding ts_defs
  by (intro yields_print2 yields_intros closed_remedies_follow) (simp_all add: remedy_simps)

lemma ts_script_remedies: "yields (remedies_follow unremedied) (ts_script env)"
  unfolding yields_def
proof
  fix h
  show "remedies_follow unremedied (snd (ts_script env h))"
  proof (rule remedies_follow_mono)
    show "remedies_follow (\<lambda>s. \<not> starts cross s
             \<or> s = cross @ '' No OpenRazer kernel modules loaded''
             \<or> starts (cross @ '' Error testing device '') s) (snd (ts_script env h))"
      using ts_script_cross_remedies [of env] by (simp add: yields_def)
  next
    fix s
    assume "failure_line s"
      and "\<not> starts cross s \<or> s = cross @ '' No OpenRazer kernel modules loaded''
             \<or> starts (cross @ '' Error testing device '') s"
    then show "unremedied s"
      unfolding failure_line_def unremedied_def by blast
  qed
qed

text \<open>
  C7, as the code has it: after every call of \<^verbatim>\<open>check_step\<close> of \<^verbatim>\<open>debug_workflow.py\<close>
  whose condition is false, the line with the cross is followed by a \<^verbatim>\<open>TIP:\<close> line; and
  in \<^verbatim>\<open>test_system.py\<close> every failure line is followed by an indented hint, except five
  that are printed alone: ``No OpenRazer kernel modules loaded'', the two ``Error testing
  device'' lines of the exception handlers, the ``Brightness control'' line with the
  cross, and ``Lighting test failed''.
\<close>

theorem failures_with_remediation:
  "tips_follow (snd (dw_script env h)) \<and> remedies_follow unremedied (snd (ts_script env h))"
  using dw_script_tips [of env] ts_script_remedies [of env]
  by (simp add: yields_def)

text \<open>
  Runs in which the checks fail; and for four of the five lines that come without a
  hint, a run that prints the line, with the line printed next.
\<close>

theorem failures_with_remediation_witness:
  "tips_follow (snd (dw_script env_fail []))
   \<and> length (failed_steps (snd (dw_script env_fail []))) = 6
   \<and> remedies_follow unremedied (snd (ts_script env_fail []))
   \<and> Print (cross @ '' OpenRazer daemon is not running'') \<in> set (snd (ts_script env_fail []))
   \<and> take 2 (from_line (''  - Brightness control: '' @ cross) (snd (ts_script env_fixed_brightness [])))
       = [''  - Brightness control: '' @ cross, ''\<newline>'' @ replicate 40 (CHR ''='')]
   \<and> take 2 (from_line ''  - Lighting test failed: DBus call failed'' (snd (ts_script env_no_store [])))
       = [''  - Lighting test failed: DBus call failed'', ''\<newline>'' @ replicate 40 (CHR ''='')]
   \<and> take 2 (from_line (cross @ '' Error testing device detection: DBus call failed'')
               (snd (ts_script env_late_failure [])))
       = [cross @ '' Error testing device detection: DBus call failed'',
          ''\<newline>5. Checking daemon status...'']
   \<and> take 2 (from_line (cross @ '' Error testing device functionality: DBus call failed'')
               (snd (ts_script env_late_failure [])))
       = [cross @ '' Error testing device functionality: DBus call failed'',
          ''\<newline>'' @ replicate 40 (CHR ''='')]"
proof -
  have a: "length (failed_steps (snd (dw_script env_fail []))) = 6
   \<and> Print (cross @ '' OpenRazer daemon is not running'') \<in> set (snd (ts_script env_fail []))"
    by code_simp
  have b: "take 2 (from_line (''  - Brightness control: '' @ cross) (snd (ts_script env_fixed_brightness [])))
       = [''  - Brightness control: '' @ cross, ''\<newline>'' @ replicate 40 (CHR ''='')]"
    by code_simp
  have c: "take 2 (from_line ''  - Lighting test failed: DBus call failed'' (snd (ts_script env_no_store [])))
       = [''  - Lighting test failed: DBus call failed'', ''\<newline>'' @ replicate 40 (CHR ''='')]"
    by code_simp
  have d: "take 2 (from_line (cross @ '' Error testing device detection: DBus call failed'')
               (snd (ts_script env_late_failure [])))
       = [cross @ '' Error testing device detection: DBus call failed'',
          ''\<newline>5. Checking daemon status...'']"
    by code_simp
  have e: "take 2 (from_line (cross @ '' Error testing device functionality: DBus call failed'')
               (snd (ts_script env_late_failure [])))
       = [cross @ '' Error testing device functionality: DBus call failed'',
          ''\<newline>'' @ replicate 40 (CHR ''='')]"
    by code_simp
  show ?thesis
    using failures_with_remediation [of env_fail "[]"] a b c d e by simp
qed

text \<open>
  C7 as stated fails: when \<^verbatim>\<open>lsmod | grep razer\<close> finds nothing, \<^verbatim>\<open>test_system.py\<close>
  prints the failure and goes straight on to test 3.
\<close>

theorem failures_with_remediation_counterexample:
  "\<not> remedies_follow no_line (snd (ts_script env_no_modules []))
   \<and> take 2 (dropWhile ((\<noteq>) (Print (cross @ '' No OpenRazer kernel modules loaded'')))
               (snd (ts_script env_no_modules [])))
       = [Print (cross @ '' No OpenRazer kernel modules loaded''),
          Print ''\<newline>3. Checking Python library...'']"
  by code_simp

section \<open>The order of the checks\<close>

lemma ts_marks_append: "ts_marks (a @ b) = ts_marks a @ ts_marks b"
  by (induction a rule: ts_marks.induct) simp_all

lemma closed_no_marks: "closed (\<lambda>es. ts_marks es = [])"
  by (simp add: closed_def ts_marks_append)

lemmas mark_simps = ts_headers_def starts_def tick_def cross_def party_def warning_sign_def
  cross_mark_def

lemma ts_run_command_no_marks: "yields (\<lambda>es. ts_marks es = []) (ts_run_command env c)"
  unfolding ts_run_command_def
  by (intro yields_intros closed_no_marks) simp_all

lemma ts_check_import_no_marks: "yields (\<lambda>es. ts_marks es = []) (ts_check_import env c)"
  unfolding ts_check_import_def
  by (intro yields_intros closed_no_marks) simp_all

lemma ts_brightness_test_no_marks: "yields (\<lambda>es. ts_marks es = []) (ts_brightness_test env d)"
  unfolding ts_brightness_test_def ts_matrix_def
  by (intro yields_intros closed_no_marks) (simp_all add: mark_simps)

lemma outcome_for_each_no_marks:
  assumes "\<And>x. yields (\<lambda>es. ts_marks es = []) (body x)" "\<And>r a. ts_marks a = [] \<Longrightarrow> S r a"
  shows "outcome (for_each xs body) S"
  by (rule outcome_yields [OF yields_for_each [OF closed_no_marks assms(1)] assms(2)])

lemmas ts_mark_intros =
  outcome_yields [OF ts_run_command_no_marks] outcome_yields [OF ts_check_import_no_marks]
  outcome_yields [OF ts_brightness_test_no_marks] outcome_for_each_no_marks
  outcome_index0 outcome_prims outcome_ctrl yields_intros closed_no_marks

lemma ts_test1_marks:
  "outcome (ts_test1 env c) (on_return (\<lambda>c' es. ts_marks es = [ts_headers ! 0, ''verdict'']))"
  unfolding ts_test1_def
  by (cases c) (auto intro!: ts_mark_intros simp: on_return_def ts_marks_append mark_simps split: res.splits)

lemma ts_test2_marks:
  "outcome (ts_test2 env c) (on_return (\<lambda>c' es. ts_marks es = [ts_headers ! 1, ''verdict'']))"
  unfolding ts_test2_def
  by (cases c) (auto intro!: ts_mark_intros simp: on_return_def ts_marks_append mark_simps split: res.splits)

lemma ts_test3_marks:
  "outcome (ts_test3 env c) (on_return (\<lambda>c' es. ts_marks es = [ts_headers ! 2, ''verdict'']))"
  unfolding ts_test3_def
  by (cases c) (auto intro!: ts_mark_intros simp: on_return_def ts_marks_append mark_simps split: res.splits)

lemma ts_test4_marks:
  "outcome (ts_test4 env c) (on_return (\<lambda>c' es.
     ts_marks es = [ts_headers ! 3, ''verdict'']
     \<or> ts_marks es = [ts_headers ! 3, ''verdict'', ''verdict'']))"
  unfolding ts_test4_def
  by (cases c) (auto intro!: ts_mark_intros simp: on_return_def ts_marks_append mark_simps split: res.splits)

lemma ts_test5_marks:
  "outcome (ts_test5 env c) (on_return (\<lambda>c' es. ts_marks es = [ts_headers ! 4, ''verdict'']))"
  unfolding ts_test5_def
  by (cases c) (auto intro!: ts_mark_intros simp: on_return_def ts_marks_append mark_simps split: res.splits)

lemma ts_test6_marks:
  "outcome (ts_test6 env c) (on_return (\<lambda>c' es.
     ts_marks es = [ts_headers ! 5] \<or> ts_marks es = [ts_headers ! 5, ''verdict'']))"
  unfolding ts_test6_def
  by (cases c) (auto intro!: ts_mark_intros simp: on_return_def ts_marks_append mark_simps split: res.splits)

lemmas ts_mark_rules =
  outcome_weaken [OF ts_test1_marks] outcome_weaken [OF ts_test2_marks]
  outcome_weaken [OF ts_test3_marks] outcome_weaken [OF ts_test4_marks]
  outcome_weaken [OF ts_test5_marks] outcome_weaken [OF ts_test6_marks]

lemma ts_checks_marks:
  "outcome (ts_checks env) (on_return (\<lambda>c es.
     ts_marks es \<in> set [ts_plan False False, ts_plan False True, ts_plan True False,
                        ts_plan True True]))"
  unfolding ts_checks_def
  by (auto intro!: outcome_seq outcome_bind outcome_print ts_mark_rules
        simp: on_return_def ts_marks_append ts_plan_def mark_simps split: res.splits)

lemma replicate_eq_Cons_numeral [simp]:
  "replicate (numeral k) c = x # xs \<longleftrightarrow> c = x \<and> replicate (pred_numeral k) c = xs"
  by (simp add: numeral_eq_Suc)

lemma ts_summary_marks: "yields (\<lambda>es. ts_marks es = []) (ts_summary c)"
  unfolding ts_summary_def
  by (cases c) (auto intro!: yields_intros closed_no_marks simp: mark_simps)

lemma ts_main_marks:
  "outcome (ts_main env) (on_return (\<lambda>rc es.
     ts_marks es \<in> set [ts_plan False False, ts_plan False True, ts_plan True False,
                        ts_plan True True]))"
  unfolding ts_main_def
  by (auto intro!: outcome_bind outcome_weaken [OF ts_checks_marks] outcome_yields [OF ts_summary_marks]
        simp: on_return_def ts_marks_append split: res.splits)

text \<open>
  C5, as the code has it.  A run of \<^verbatim>\<open>main\<close> of \<^verbatim>\<open>debug_workflow.py\<close> that returns goes
  through Hardware Detection, Kernel Module Loading, Module Files, Daemon Status, Python
  Library and User Permissions in this order, with Device Files after Module Files only
  when the first two steps passed and Device Detection after Python Library only when
  that step passed; and every call of \<^verbatim>\<open>check_step\<close> prints its header and then a line
  with the tick or the cross.  A run of \<^verbatim>\<open>main\<close> of \<^verbatim>\<open>test_system.py\<close> that returns
  prints the headers of its six tests in order, each of the first five followed by a
  line with the tick or the cross (test 4 may print both), test 6 by one only when it
  fails.
\<close>

theorem checks_in_order:
  "(fst (dw_main env h) = Ret n \<longrightarrow>
      map fst (checks (snd (dw_main env h)))
        = dw_order (passed ''Hardware Detection'' (snd (dw_main env h)))
            (passed ''Kernel Module Loading'' (snd (dw_main env h)))
            (passed ''Python Library'' (snd (dw_main env h))))
   \<and> verdicts_follow (snd (dw_script env h))
   \<and> (fst (ts_main env h) = Ret rc \<longrightarrow>
        ts_marks (snd (ts_main env h))
          \<in> set [ts_plan False False, ts_plan False True, ts_plan True False, ts_plan True True])"
  using dw_main_post [of env, unfolded outcome_def, rule_format, of h]
    ts_main_marks [of env, unfolded outcome_def, rule_format, of h]
    dw_script_verdicts [of env, unfolded yields_def, rule_format, of h]
  by (auto simp: on_return_def)

theorem checks_in_order_witness:
  "fst (dw_main env_fail []) = Ret 6
   \<and> map fst (checks (snd (dw_main env_fail []))) = dw_order False False False
   \<and> verdicts_follow (snd (dw_script env_fail []))
   \<and> fst (ts_main env_late_failure []) = Ret 1
   \<and> ts_marks (snd (ts_main env_late_failure [])) = ts_plan True True
   \<and> ts_marks (snd (ts_main env_late_failure []))
       \<in> set [ts_plan False False, ts_plan False True, ts_plan True False, ts_plan True True]"
proof -
  have a: "fst (dw_main env_fail []) = Ret 6"
    by code_simp
  have b: "\<not> passed ''Hardware Detection'' (snd (dw_main env_fail []))
     \<and> \<not> passed ''Kernel Module Loading'' (snd (dw_main env_fail []))
     \<and> \<not> passed ''Python Library'' (snd (dw_main env_fail []))"
    by code_simp
  have c: "fst (ts_main env_late_failure []) = Ret 1"
    by code_simp
  have d: "ts_marks (snd (ts_main env_late_failure [])) = ts_plan True True"
    by code_simp
  have e: "map fst (checks (snd (dw_main env_fail []))) = dw_order False False False"
    using checks_in_order [of env_fail "[]" 6 0] a b by simp
  have f: "verdicts_follow (snd (dw_script env_fail []))"
    using checks_in_order [of env_fail "[]" 6 0] by simp
  have g: "ts_marks (snd (ts_main env_late_failure []))
       \<in> set [ts_plan False False, ts_plan False True, ts_plan True False, ts_plan True True]"
    using checks_in_order [of env_late_failure "[]" 6 1] c by simp
  show ?thesis
    using a c d e f g by simp
qed

text \<open>
  C5 as stated fails: the checks are not an unconditional sequence.  Both runs below
  return, and the Device Files step is part of the first only.
\<close>

theorem checks_unconditional_counterexample:
  "fst (dw_main env_ok []) = Ret 0 \<and> fst (dw_main env_fail []) = Ret 6
   \<and> ''Device Files'' \<in> set (map fst (checks (snd (dw_main env_ok []))))
   \<and> ''Device Files'' \<notin> set (map fst (checks (snd (dw_main env_fail []))))"
  by code_simp

end
